theory Spec2Isabelle
  imports Main "HOL-Library.Char_ord" "HOL-Library.List_Lexorder"
begin

section \<open>Python values, exceptions and dataframe cells\<close>

text \<open>
  The program is a Python script (\<^verbatim>\<open>src/app.py\<close>) over pandas dataframes. A dataframe is
  modelled as the list of its rows, a row as a record of the columns the code reads.
  Python strings are \<^typ>\<open>string\<close>: one \<^typ>\<open>char\<close> per code point (code points below 256),
  compared with Python's order on \<^verbatim>\<open>str\<close>, the lexicographic order on code points.
  A raised exception is the left summand of a result.
\<close>

datatype pyexc =
  ValueError | SyntaxError | TypeError | KeyError | MemoryError | RecursionError
  | UnboundLocalError | RequestException

text \<open>A scalar cell of a dataframe: a missing value, a \<^verbatim>\<open>str\<close> or an \<^verbatim>\<open>int\<close>.\<close>

datatype cell = NaN | Str string | Num int

text \<open>
  What \<^verbatim>\<open>ast.literal_eval\<close> yields on the list columns of the archive: a scalar,
  a list or a tuple of scalars.
\<close>

datatype parsed = Scalar cell | PList "cell list" | PTuple "cell list"

fun est_liste :: "parsed \<Rightarrow> bool" where
  "est_liste (PList xs) = True"
| "est_liste (Scalar c) = False"
| "est_liste (PTuple xs) = False"

section \<open>The archive of arr\<^verbatim>\<open>e\<close>t\<^verbatim>\<open>e\<close>s\<close>

text \<open>
  One row of the archive read by \<^verbatim>\<open>get_arretes\<close>. The columns
  \<^verbatim>\<open>zones_alerte.niveau_gravite\<close> and \<^verbatim>\<open>zones_alerte.type\<close> change their content along
  \<^verbatim>\<open>calculer_dept_arretes_date\<close> (raw cell, parsed value, exploded cell), hence the two
  type parameters. The date columns hold strings (\<^verbatim>\<open>get_arretes\<close> drops the rows without
  \<^verbatim>\<open>date_fin\<close>).
\<close>

record ('n, 't) arrete =
  date_debut :: string
  date_fin :: string
  zones_alerte_niveau_gravite :: 'n
  zones_alerte_type :: 't
  departement :: cell

definition set_niveau_gravite :: "('n, 't) arrete \<Rightarrow> 'm \<Rightarrow> ('m, 't) arrete" where
  "set_niveau_gravite r v =
     \<lparr>date_debut = date_debut r, date_fin = date_fin r,
      zones_alerte_niveau_gravite = v, zones_alerte_type = zones_alerte_type r,
      departement = departement r\<rparr>"

definition set_type :: "('n, 't) arrete \<Rightarrow> 'u \<Rightarrow> ('n, 'u) arrete" where
  "set_type r v =
     \<lparr>date_debut = date_debut r, date_fin = date_fin r,
      zones_alerte_niveau_gravite = zones_alerte_niveau_gravite r, zones_alerte_type = v,
      departement = departement r\<rparr>"

subsection \<open>\<^verbatim>\<open>safe_literal_eval\<close>\<close>

text \<open>
  \<^verbatim>\<open>ast.literal_eval\<close> belongs to the Python standard library: it is the parameter
  \<open>literal_eval\<close>, which either raises or returns the parsed literal. The handler
  \<^verbatim>\<open>except (ValueError, SyntaxError)\<close> returns \<^verbatim>\<open>[value]\<close>; any other exception propagates.
\<close>

definition safe_literal_eval :: "(cell \<Rightarrow> pyexc + parsed) \<Rightarrow> cell \<Rightarrow> pyexc + parsed" where
  "safe_literal_eval literal_eval v =
     (case literal_eval v of
        Inr p \<Rightarrow> Inr p
      | Inl e \<Rightarrow> if e = ValueError \<or> e = SyntaxError then Inr (PList [v]) else Inl e)"

subsection \<open>\<^verbatim>\<open>Series.apply\<close> and \<^verbatim>\<open>DataFrame.explode\<close>\<close>

text \<open>\<^verbatim>\<open>apply\<close> calls the function on the rows in order; the first exception ends it.\<close>

fun apply_col :: "('a \<Rightarrow> pyexc + 'b) \<Rightarrow> 'a list \<Rightarrow> pyexc + 'b list" where
  "apply_col f [] = Inr []"
| "apply_col f (x # xs) =
     (case f x of
        Inl e \<Rightarrow> Inl e
      | Inr y \<Rightarrow> (case apply_col f xs of Inl e \<Rightarrow> Inl e | Inr ys \<Rightarrow> Inr (y # ys)))"

text \<open>
  pandas' \<^verbatim>\<open>explode\<close> on several columns: \<^verbatim>\<open>mylen\<close> is its element count (an empty
  list-like counts for one), the counts of the columns must agree on every row
  (\<^verbatim>\<open>ValueError: columns must have matching element counts\<close> otherwise), an empty list-like
  explodes to one missing value and a scalar to itself.
\<close>

fun mylen :: "parsed \<Rightarrow> nat" where
  "mylen (PList xs) = (if length xs > 0 then length xs else 1)"
| "mylen (PTuple xs) = (if length xs > 0 then length xs else 1)"
| "mylen (Scalar c) = 1"

fun explode_cell :: "parsed \<Rightarrow> cell list" where
  "explode_cell (PList xs) = (if length xs > 0 then xs else [NaN])"
| "explode_cell (PTuple xs) = (if length xs > 0 then xs else [NaN])"
| "explode_cell (Scalar c) = [c]"

definition explode_row :: "(parsed, parsed) arrete \<Rightarrow> (cell, cell) arrete list" where
  "explode_row r =
     map (\<lambda>(n, t). set_type (set_niveau_gravite r n) t)
       (zip (explode_cell (zones_alerte_niveau_gravite r)) (explode_cell (zones_alerte_type r)))"

definition explode :: "(parsed, parsed) arrete list \<Rightarrow> pyexc + (cell, cell) arrete list" where
  "explode df =
     (if list_all (\<lambda>r. mylen (zones_alerte_niveau_gravite r) = mylen (zones_alerte_type r)) df
      then Inr (concat (map explode_row df))
      else Inl ValueError)"

subsection \<open>\<^verbatim>\<open>calculer_dept_arretes_date\<close>\<close>

text \<open>Lines 381 to 388: both list columns parsed, the first one first, then the explosion.\<close>

definition parse_niveau_gravite ::
  "(cell \<Rightarrow> pyexc + parsed) \<Rightarrow> (cell, cell) arrete \<Rightarrow> pyexc + (parsed, cell) arrete" where
  "parse_niveau_gravite literal_eval r =
     (case safe_literal_eval literal_eval (zones_alerte_niveau_gravite r) of
        Inl e \<Rightarrow> Inl e
      | Inr p \<Rightarrow> Inr (set_niveau_gravite r p))"

definition parse_type ::
  "(cell \<Rightarrow> pyexc + parsed) \<Rightarrow> (parsed, cell) arrete \<Rightarrow> pyexc + (parsed, parsed) arrete" where
  "parse_type literal_eval r =
     (case safe_literal_eval literal_eval (zones_alerte_type r) of
        Inl e \<Rightarrow> Inl e
      | Inr p \<Rightarrow> Inr (set_type r p))"

definition separer_listes ::
  "(cell \<Rightarrow> pyexc + parsed) \<Rightarrow> (cell, cell) arrete list \<Rightarrow> pyexc + (cell, cell) arrete list" where
  "separer_listes literal_eval loc_df_arretes =
     (case apply_col (parse_niveau_gravite literal_eval) loc_df_arretes of
        Inl e \<Rightarrow> Inl e
      | Inr df1 \<Rightarrow>
          (case apply_col (parse_type literal_eval) df1 of
             Inl e \<Rightarrow> Inl e
           | Inr df2 \<Rightarrow> explode df2))"

text \<open>Lines 375 to 377: the date filter, a comparison of strings.\<close>

definition filtre_dates :: "('n, 't) arrete list \<Rightarrow> string \<Rightarrow> ('n, 't) arrete list" where
  "filtre_dates df_arretes date_compar =
     (let loc_df_arretes = filter (\<lambda>r. date_debut r < date_compar) df_arretes
      in if loc_df_arretes \<noteq> []
         then filter (\<lambda>r. date_fin r > date_compar) loc_df_arretes
         else loc_df_arretes)"

text \<open>Lines 390 to 403: the type filter, the level filter and the count of departments.\<close>

definition compter_departements :: "(cell, cell) arrete list \<Rightarrow> cell list \<Rightarrow> nat" where
  "compter_departements loc_explode niveaux =
     (let loc_sup =
            (if loc_explode \<noteq> []
             then filter (\<lambda>r. zones_alerte_type r = Str ''SUP'') loc_explode
             else loc_explode)
      in if loc_sup \<noteq> [] then
           (let df_arretes_non_vigi =
                  filter (\<lambda>r. zones_alerte_niveau_gravite r \<in> set niveaux) loc_sup
            in if df_arretes_non_vigi \<noteq> []
               then length (remdups (map departement df_arretes_non_vigi))
               else 0)
         else 0)"

definition calculer_dept_arretes_date ::
  "(cell \<Rightarrow> pyexc + parsed) \<Rightarrow> (cell, cell) arrete list \<Rightarrow> string \<Rightarrow> cell list \<Rightarrow> pyexc + nat" where
  "calculer_dept_arretes_date literal_eval df_arretes date_compar niveaux =
     (let loc_dates = filtre_dates df_arretes date_compar
      in case (if loc_dates \<noteq> [] then separer_listes literal_eval loc_dates else Inr []) of
           Inl e \<Rightarrow> Inl e
         | Inr loc_explode \<Rightarrow> Inr (compter_departements loc_explode niveaux))"

subsection \<open>The counting rule in the words of the specification\<close>

text \<open>
  An arr\<^verbatim>\<open>e\<close>t\<^verbatim>\<open>e\<close> is valid at the comparison date when it began before it and ends after it.
\<close>

definition valide_a :: "string \<Rightarrow> ('n, 't) arrete \<Rightarrow> bool" where
  "valide_a date_compar r = (date_debut r < date_compar \<and> date_compar < date_fin r)"

text \<open>
  The paired (level, type) elements of a row, one per zone. A row can be exploded when
  both columns parse without an uncaught exception and to the same element count.
\<close>

definition paires_zones :: "(cell \<Rightarrow> pyexc + parsed) \<Rightarrow> (cell, cell) arrete \<Rightarrow> (cell \<times> cell) list" where
  "paires_zones literal_eval r =
     (case safe_literal_eval literal_eval (zones_alerte_niveau_gravite r) of
        Inl e \<Rightarrow> []
      | Inr pn \<Rightarrow>
          (case safe_literal_eval literal_eval (zones_alerte_type r) of
             Inl e \<Rightarrow> []
           | Inr pt \<Rightarrow> zip (explode_cell pn) (explode_cell pt)))"

definition ligne_explosable :: "(cell \<Rightarrow> pyexc + parsed) \<Rightarrow> (cell, cell) arrete \<Rightarrow> bool" where
  "ligne_explosable literal_eval r =
     (case safe_literal_eval literal_eval (zones_alerte_niveau_gravite r) of
        Inl e \<Rightarrow> False
      | Inr pn \<Rightarrow>
          (case safe_literal_eval literal_eval (zones_alerte_type r) of
             Inl e \<Rightarrow> False
           | Inr pt \<Rightarrow> mylen pn = mylen pt))"

definition archive_explosable ::
  "(cell \<Rightarrow> pyexc + parsed) \<Rightarrow> (cell, cell) arrete list \<Rightarrow> string \<Rightarrow> bool" where
  "archive_explosable literal_eval df_arretes date_compar =
     list_all (ligne_explosable literal_eval) (filter (valide_a date_compar) df_arretes)"

text \<open>
  A row qualifies when it is valid at the date and one of its zones is of type
  \<^verbatim>\<open>SUP\<close> at a level of the list; the specified count is the number of distinct
  departments of the qualifying rows.
\<close>

definition ligne_qualifiee ::
  "(cell \<Rightarrow> pyexc + parsed) \<Rightarrow> string \<Rightarrow> cell list \<Rightarrow> (cell, cell) arrete \<Rightarrow> bool" where
  "ligne_qualifiee literal_eval date_compar niveaux r =
     (valide_a date_compar r
      \<and> list_ex (\<lambda>(n, t). t = Str ''SUP'' \<and> n \<in> set niveaux) (paires_zones literal_eval r))"

definition departements_qualifies ::
  "(cell \<Rightarrow> pyexc + parsed) \<Rightarrow> (cell, cell) arrete list \<Rightarrow> string \<Rightarrow> cell list \<Rightarrow> cell set" where
  "departements_qualifies literal_eval df_arretes date_compar niveaux =
     set (map departement (filter (ligne_qualifiee literal_eval date_compar niveaux) df_arretes))"

text \<open>The candidate rows of an arr\<^verbatim>\<open>e\<close>t\<^verbatim>\<open>e\<close>: one per paired element.\<close>

definition lignes_candidates ::
  "(cell \<Rightarrow> pyexc + parsed) \<Rightarrow> (cell, cell) arrete \<Rightarrow> (cell, cell) arrete list" where
  "lignes_candidates literal_eval r =
     map (\<lambda>(n, t). set_type (set_niveau_gravite r n) t) (paires_zones literal_eval r)"

text \<open>A row with a zone of type \<^verbatim>\<open>SUP\<close> among its paired elements.\<close>

definition a_zone_sup :: "(cell \<Rightarrow> pyexc + parsed) \<Rightarrow> (cell, cell) arrete \<Rightarrow> bool" where
  "a_zone_sup literal_eval r = list_ex (\<lambda>(n, t). t = Str ''SUP'') (paires_zones literal_eval r)"

section \<open>Dates\<close>

text \<open>
  \<^verbatim>\<open>datetime.date\<close>: the constructor raises \<^verbatim>\<open>ValueError\<close> outside the years 1 to 9999,
  the months 1 to 12 and the days of the month; \<^verbatim>\<open>isoformat\<close> writes
  \<^verbatim>\<open>YYYY-MM-DD\<close> with leading zeros (\<open>chiffres k n\<close> is the decimal writing of \<open>n\<close> on
  \<open>k\<close> digits, for the numbers below \<open>10 ^ k\<close> that a date holds).
\<close>

record date =
  year :: int
  month :: int
  day :: int

definition is_leap :: "int \<Rightarrow> bool" where
  "is_leap y = (y mod 4 = 0 \<and> (y mod 100 \<noteq> 0 \<or> y mod 400 = 0))"

definition days_in_month :: "int \<Rightarrow> int \<Rightarrow> int" where
  "days_in_month y m =
     (if m = 2 then (if is_leap y then 29 else 28)
      else if m = 4 \<or> m = 6 \<or> m = 9 \<or> m = 11 then 30 else 31)"

definition date_valide :: "date \<Rightarrow> bool" where
  "date_valide d =
     (1 \<le> year d \<and> year d \<le> 9999 \<and> 1 \<le> month d \<and> month d \<le> 12
      \<and> 1 \<le> day d \<and> day d \<le> days_in_month (year d) (month d))"

definition dt_date :: "int \<Rightarrow> int \<Rightarrow> int \<Rightarrow> pyexc + date" where
  "dt_date y m d =
     (if date_valide \<lparr>year = y, month = m, day = d\<rparr>
      then Inr \<lparr>year = y, month = m, day = d\<rparr>
      else Inl ValueError)"

fun chiffres :: "nat \<Rightarrow> nat \<Rightarrow> string" where
  "chiffres 0 n = []"
| "chiffres (Suc k) n = chiffres k (n div 10) @ [''0123456789'' ! (n mod 10)]"

definition isoformat :: "date \<Rightarrow> string" where
  "isoformat d =
     chiffres 4 (nat (year d)) @ ''-'' @ chiffres 2 (nat (month d)) @ ''-''
       @ chiffres 2 (nat (day d))"

text \<open>The order of the calendar, to which the comparison of ISO strings is compared below.\<close>

definition avant :: "date \<Rightarrow> date \<Rightarrow> bool" where
  "avant d e =
     (year d < year e
      \<or> year d = year e \<and> (month d < month e \<or> month d = month e \<and> day d < day e))"

text \<open>
  Line 575: \<^verbatim>\<open>today + relativedelta(months=-1, day=1)\<close>. dateutil subtracts one from the
  month, wraps below 1 into December of the year before, sets the day to 1 and rebuilds
  the date (\<^verbatim>\<open>ValueError\<close> when the year leaves the range).
\<close>

definition premier_jour_mois_precedent :: "date \<Rightarrow> pyexc + date" where
  "premier_jour_mois_precedent date_today =
     (let m = month date_today - 1
      in if m < 1 then dt_date (year date_today - 1) (m + 12) 1
         else dt_date (year date_today) m 1)"

subsection \<open>\<^verbatim>\<open>calculer_dept_arretes_an_passe\<close>\<close>

definition alerte_renforcee_libelle :: string where
  "alerte_renforcee_libelle = ''alerte renforc'' @ [CHR 0xE9] @ ''e''"

definition calculer_dept_arretes_an_passe ::
  "(cell \<Rightarrow> pyexc + parsed) \<Rightarrow> (cell, cell) arrete list \<Rightarrow> date \<Rightarrow> pyexc + nat" where
  "calculer_dept_arretes_an_passe literal_eval df_arretes date_today =
     (let an_moins_1 = year date_today - 1
      in case dt_date an_moins_1 (month date_today) 1 of
           Inl e \<Rightarrow> Inl e
         | Inr d \<Rightarrow>
             calculer_dept_arretes_date literal_eval df_arretes (isoformat d)
               [Str ''alerte'', Str alerte_renforcee_libelle, Str ''crise''])"

section \<open>The zone layer\<close>

text \<open>
  One row of the layer of zones as it is read (\<^verbatim>\<open>zone_lue\<close>), with the columns the code
  reads: \<^verbatim>\<open>id\<close>, \<^verbatim>\<open>type\<close>, \<^verbatim>\<open>departement\<close> and \<^verbatim>\<open>arreteRestriction\<close> (JSON texts) and
  \<^verbatim>\<open>niveauGravite\<close>; the geometry is left out. \<^verbatim>\<open>get_zones_secheresse\<close> adds the columns
  \<^verbatim>\<open>insee_dept\<close> and \<^verbatim>\<open>chemin_fichier\<close>.
\<close>

record zone_lue =
  zone_id :: "int option"
  zone_type :: cell
  zone_departement :: cell
  arreteRestriction :: cell
  niveauGravite :: cell

record zone = zone_lue +
  insee_dept :: cell
  chemin_fichier :: cell

text \<open>
  \<^verbatim>\<open>json.loads\<close> is the parameter \<open>json_loads\<close>: it raises, or returns an object (a
  dictionary from keys to scalars) or another JSON value. Subscripting the result with a
  key raises \<^verbatim>\<open>KeyError\<close> on an object without the key and \<^verbatim>\<open>TypeError\<close> on anything
  else.
\<close>

datatype json = JObjet "string \<Rightarrow> cell option" | JAutre

definition champ_json :: "(cell \<Rightarrow> pyexc + json) \<Rightarrow> string \<Rightarrow> cell \<Rightarrow> pyexc + cell" where
  "champ_json json_loads cle x =
     (case json_loads x of
        Inl e \<Rightarrow> Inl e
      | Inr (JObjet d) \<Rightarrow> (case d cle of None \<Rightarrow> Inl KeyError | Some c \<Rightarrow> Inr c)
      | Inr JAutre \<Rightarrow> Inl TypeError)"

text \<open>Line 76: \<^verbatim>\<open>len(x) < 3\<close>; only a string has a length among the scalars.\<close>

fun len_inferieur_3 :: "cell \<Rightarrow> pyexc + bool" where
  "len_inferieur_3 (Str s) = Inr (length s < 3)"
| "len_inferieur_3 NaN = Inl TypeError"
| "len_inferieur_3 (Num n) = Inl TypeError"

text \<open>
  geopandas' \<^verbatim>\<open>dissolve(by='id', aggfunc='first')\<close>: one row per identifier, in the order
  of the identifiers, rows without identifier dropped, each column the first value of
  the group that is not missing.
\<close>

definition premier_non_nul :: "cell list \<Rightarrow> cell" where
  "premier_non_nul cs = (case filter (\<lambda>c. c \<noteq> NaN) cs of [] \<Rightarrow> NaN | c # _ \<Rightarrow> c)"

definition dissolve :: "zone_lue list \<Rightarrow> zone_lue list" where
  "dissolve zs =
     map (\<lambda>i. let g = filter (\<lambda>z. zone_id z = Some i) zs
              in \<lparr>zone_id = Some i,
                  zone_type = premier_non_nul (map zone_type g),
                  zone_departement = premier_non_nul (map zone_departement g),
                  arreteRestriction = premier_non_nul (map arreteRestriction g),
                  niveauGravite = premier_non_nul (map niveauGravite g)\<rparr>)
       (sort (remdups (concat (map (\<lambda>z. case zone_id z of None \<Rightarrow> [] | Some i \<Rightarrow> [i]) zs))))"

text \<open>
  Lines 76 and 77: \<^verbatim>\<open>where\<close> replaces every column of a row that fails the condition by
  a missing value, \<^verbatim>\<open>dropna\<close> then drops the rows whose \<^verbatim>\<open>insee_dept\<close> is missing.
\<close>

definition ligne_vide :: "zone_lue \<times> cell" where
  "ligne_vide =
     (\<lparr>zone_id = None, zone_type = NaN, zone_departement = NaN, arreteRestriction = NaN,
       niveauGravite = NaN\<rparr>, NaN)"

definition where_cond :: "(zone_lue \<times> cell) list \<Rightarrow> bool list \<Rightarrow> (zone_lue \<times> cell) list" where
  "where_cond df cond = map (\<lambda>(r, b). if b then r else ligne_vide) (zip df cond)"

definition dropna_insee_dept :: "(zone_lue \<times> cell) list \<Rightarrow> (zone_lue \<times> cell) list" where
  "dropna_insee_dept df = filter (\<lambda>zc. snd zc \<noteq> NaN) df"

definition ajouter_insee_dept ::
  "(cell \<Rightarrow> pyexc + json) \<Rightarrow> zone_lue \<Rightarrow> pyexc + zone_lue \<times> cell" where
  "ajouter_insee_dept json_loads z =
     (case champ_json json_loads ''code'' (zone_departement z) of
        Inl e \<Rightarrow> Inl e
      | Inr c \<Rightarrow> Inr (z, c))"

definition ajouter_chemin_fichier ::
  "(cell \<Rightarrow> pyexc + json) \<Rightarrow> zone_lue \<times> cell \<Rightarrow> pyexc + zone" where
  "ajouter_chemin_fichier json_loads zc =
     (case champ_json json_loads ''fichier'' (arreteRestriction (fst zc)) of
        Inl e \<Rightarrow> Inl e
      | Inr f \<Rightarrow>
          Inr \<lparr>zone_id = zone_id (fst zc), zone_type = zone_type (fst zc),
               zone_departement = zone_departement (fst zc),
               arreteRestriction = arreteRestriction (fst zc),
               niveauGravite = niveauGravite (fst zc),
               insee_dept = snd zc, chemin_fichier = f\<rparr>)"

text \<open>
  \<^verbatim>\<open>get_zones_secheresse\<close>. The layer is read from the uploaded file or requested from
  the stable URL; \<open>lecture\<close> is the outcome of that read. A layer read without any
  feature has no column but the geometry: line 66 then raises \<^verbatim>\<open>KeyError\<close> on the column
  \<^verbatim>\<open>type\<close>. The tiles are dissolved only in the second case.
\<close>

definition get_zones_secheresse ::
  "(cell \<Rightarrow> pyexc + json) \<Rightarrow> string option \<Rightarrow> pyexc + zone_lue list \<Rightarrow> pyexc + zone list" where
  "get_zones_secheresse json_loads uploaded_file lecture =
     (let traiter_pmtiles = (uploaded_file = None)
      in case lecture of
           Inl e \<Rightarrow> Inl e
         | Inr zones_lues \<Rightarrow>
             if zones_lues = [] then Inl KeyError
             else
             (let zones_sup = filter (\<lambda>z. zone_type z = Str ''SUP'') zones_lues;
                  zones_id = (if traiter_pmtiles then dissolve zones_sup else zones_sup)
              in case apply_col (ajouter_insee_dept json_loads) zones_id of
                   Inl e \<Rightarrow> Inl e
                 | Inr zones_dept \<Rightarrow>
                     (case apply_col (\<lambda>zc. len_inferieur_3 (snd zc)) zones_dept of
                        Inl e \<Rightarrow> Inl e
                      | Inr cond \<Rightarrow>
                          apply_col (ajouter_chemin_fichier json_loads)
                            (dropna_insee_dept (where_cond zones_dept cond)))))"

section \<open>The indicators\<close>

text \<open>A department of the VNF network (layer \<^verbatim>\<open>dept_iti\<close>).\<close>

record dept =
  insee_dep :: cell
  nom :: string

definition calculer_dept_zone_restrict :: "zone list \<Rightarrow> nat" where
  "calculer_dept_zone_restrict zones_arretes =
     (let zones_non_vigilance = filter (\<lambda>z. niveauGravite z \<noteq> Str ''vigilance'') zones_arretes
      in if zones_non_vigilance \<noteq> []
         then length (remdups (map insee_dept zones_non_vigilance))
         else 0)"

fun join :: "string \<Rightarrow> string list \<Rightarrow> string" where
  "join sep [] = []"
| "join sep [x] = x"
| "join sep (x # y # ys) = x @ sep @ join sep (y # ys)"

definition calculer_dept_zone_vnf_niveau :: "zone list \<Rightarrow> dept list \<Rightarrow> string \<Rightarrow> nat \<times> string" where
  "calculer_dept_zone_vnf_niveau zones_arretes dept_iti niveau =
     (let zones_filtres = filter (\<lambda>z. niveauGravite z = Str niveau) zones_arretes
      in if zones_filtres \<noteq> [] then
           (let dept_filtre = remdups (map insee_dept zones_filtres);
                dept_resultat = filter (\<lambda>d. insee_dep d \<in> set dept_filtre) dept_iti
            in if dept_resultat \<noteq> []
               then (length dept_resultat, join '', '' (map nom dept_resultat))
               else (0, []))
         else (0, []))"

text \<open>
  The table of indicators: a dataframe with named columns and labelled rows.
  \<^verbatim>\<open>df.loc[label] = values\<close> replaces the row of that label or appends it, and raises
  \<^verbatim>\<open>ValueError\<close> when the number of values is not the number of columns.
\<close>

record table_indic =
  colonnes :: "string list"
  lignes :: "(string \<times> cell list) list"

definition loc_set :: "table_indic \<Rightarrow> string \<Rightarrow> cell list \<Rightarrow> pyexc + table_indic" where
  "loc_set t label valeurs =
     (if length valeurs \<noteq> length (colonnes t) then Inl ValueError
      else if label \<in> set (map fst (lignes t))
      then Inr (t\<lparr>lignes := map (\<lambda>(l, vs). if l = label then (l, valeurs) else (l, vs)) (lignes t)\<rparr>)
      else Inr (t\<lparr>lignes := lignes t @ [(label, valeurs)]\<rparr>))"

definition colonnes_indic :: "string list" where
  "colonnes_indic =
     [''dept_fr'', ''dept_vnf_crise_code'', ''dept_vnf_crise_nom'', ''dept_vnf_ar_code'',
      ''dept_vnf_ar_nom'', ''dept_vnf_a_code'', ''dept_vnf_a_nom'', ''dept_vnf_vg_code'',
      ''dept_vnf_vg_nom'']"

definition nombre :: "nat \<Rightarrow> cell" where
  "nombre n = Num (int n)"

text \<open>
  \<^verbatim>\<open>construire_table_indic\<close>; \<open>date_today\<close> is what \<^verbatim>\<open>dt.date.today()\<close> returns.
  First the row of the current date, lines 537 to 555, and the five counts of the
  previous month, lines 577 to 598.
\<close>

definition indic_annee_courante :: "zone list \<Rightarrow> dept list \<Rightarrow> cell list" where
  "indic_annee_courante zones_arretes dept_iti =
     (let nb_dept_r_z = calculer_dept_zone_restrict zones_arretes;
          nb_dept_vnf_crise = calculer_dept_zone_vnf_niveau zones_arretes dept_iti ''crise'';
          nb_dept_vnf_ar = calculer_dept_zone_vnf_niveau zones_arretes dept_iti ''alerte_renforcee'';
          nb_dept_vnf_a = calculer_dept_zone_vnf_niveau zones_arretes dept_iti ''alerte'';
          nb_dept_vnf_vg = calculer_dept_zone_vnf_niveau zones_arretes dept_iti ''vigilance''
      in [nombre nb_dept_r_z,
          nombre (fst nb_dept_vnf_crise), Str (snd nb_dept_vnf_crise),
          nombre (fst nb_dept_vnf_ar), Str (snd nb_dept_vnf_ar),
          nombre (fst nb_dept_vnf_a), Str (snd nb_dept_vnf_a),
          nombre (fst nb_dept_vnf_vg), Str (snd nb_dept_vnf_vg)])"

definition indic_mois_precedent ::
  "(cell \<Rightarrow> pyexc + parsed) \<Rightarrow> (cell, cell) arrete list \<Rightarrow> string \<Rightarrow> pyexc + cell list" where
  "indic_mois_precedent literal_eval df_arretes date_compar =
     (case calculer_dept_arretes_date literal_eval df_arretes date_compar
             [Str ''alerte'', Str ''alerte_renforcee'', Str ''crise''] of
        Inl e \<Rightarrow> Inl e
      | Inr nb_dept_r_z_mois_prec \<Rightarrow>
     (case calculer_dept_arretes_date literal_eval df_arretes date_compar [Str ''crise''] of
        Inl e \<Rightarrow> Inl e
      | Inr nb_dept_vnf_crise_mois_prec \<Rightarrow>
     (case calculer_dept_arretes_date literal_eval df_arretes date_compar
             [Str ''alerte_renforcee''] of
        Inl e \<Rightarrow> Inl e
      | Inr nb_dept_vnf_ar_mois_prec \<Rightarrow>
     (case calculer_dept_arretes_date literal_eval df_arretes date_compar [Str ''alerte''] of
        Inl e \<Rightarrow> Inl e
      | Inr nb_dept_vnf_a_mois_prec \<Rightarrow>
     (case calculer_dept_arretes_date literal_eval df_arretes date_compar [Str ''vigilance''] of
        Inl e \<Rightarrow> Inl e
      | Inr nb_dept_vnf_vg_mois_prec \<Rightarrow>
          Inr [nombre nb_dept_r_z_mois_prec,
               nombre nb_dept_vnf_crise_mois_prec, Str [],
               nombre nb_dept_vnf_ar_mois_prec, Str [],
               nombre nb_dept_vnf_a_mois_prec, Str [],
               nombre nb_dept_vnf_vg_mois_prec, Str []])))))"

definition construire_table_indic ::
  "(cell \<Rightarrow> pyexc + parsed) \<Rightarrow> date \<Rightarrow> (cell, cell) arrete list \<Rightarrow> zone list \<Rightarrow> dept list
     \<Rightarrow> pyexc + table_indic" where
  "construire_table_indic literal_eval date_today df_arretes zones_arretes dept_iti =
     (let df_resultat = \<lparr>colonnes = colonnes_indic, lignes = []\<rparr>
      in case loc_set df_resultat ''annee_courante''
                (indic_annee_courante zones_arretes dept_iti) of
           Inl e \<Rightarrow> Inl e
         | Inr df_resultat \<Rightarrow>
      (case calculer_dept_arretes_an_passe literal_eval df_arretes date_today of
           Inl e \<Rightarrow> Inl e
         | Inr nb_dept_an_passe \<Rightarrow>
      (case loc_set df_resultat ''annee_precedente''
                [nombre nb_dept_an_passe, Num 0, Str [], Num 0, Str [], Num 0, Str [],
                 Num 0, Str []] of
           Inl e \<Rightarrow> Inl e
         | Inr df_resultat \<Rightarrow>
      (case premier_jour_mois_precedent date_today of
           Inl e \<Rightarrow> Inl e
         | Inr date_compar \<Rightarrow>
      (case indic_mois_precedent literal_eval df_arretes (isoformat date_compar) of
           Inl e \<Rightarrow> Inl e
         | Inr valeurs \<Rightarrow> loc_set df_resultat ''mois_precedent'' valeurs)))))"

text \<open>Reading a cell of the table: \<^verbatim>\<open>table_indic.loc[label][colonne]\<close>.\<close>

definition indice :: "string \<Rightarrow> string list \<Rightarrow> nat option" where
  "indice c cs = (if c \<in> set cs then Some (length (takeWhile (\<lambda>x. x \<noteq> c) cs)) else None)"

definition lire_indic :: "table_indic \<Rightarrow> string \<Rightarrow> string \<Rightarrow> pyexc + cell" where
  "lire_indic t label colonne =
     (case map_of (lignes t) label of
        None \<Rightarrow> Inl KeyError
      | Some vs \<Rightarrow>
          (case indice colonne (colonnes t) of
             None \<Rightarrow> Inl KeyError
           | Some i \<Rightarrow> if i < length vs then Inr (vs ! i) else Inl KeyError))"

subsection \<open>\<^verbatim>\<open>inserer_indic_dept\<close>: the differences with the previous month\<close>

text \<open>
  Lines 631 to 637 and 657 to 711: the difference between the cell of the current date
  and the cell of the previous month of one column, and the sign written before it.
\<close>

definition signe_devant :: "int \<Rightarrow> string" where
  "signe_devant valeur =
     (let signe = [];
          signe = (if valeur > 0 then [CHR 0x5C] @ ''+ '' else signe);
          signe = (if valeur < 0 then [CHR 0x5C] @ ''- '' else signe)
      in signe)"

fun soustraire :: "cell \<Rightarrow> cell \<Rightarrow> pyexc + int" where
  "soustraire (Num a) (Num b) = Inr (a - b)"
| "soustraire a b = Inl TypeError"

definition diff_indic_mois :: "table_indic \<Rightarrow> string \<Rightarrow> pyexc + int" where
  "diff_indic_mois table_indic colonne =
     (case lire_indic table_indic ''annee_courante'' colonne of
        Inl e \<Rightarrow> Inl e
      | Inr a \<Rightarrow>
          (case lire_indic table_indic ''mois_precedent'' colonne of
             Inl e \<Rightarrow> Inl e
           | Inr b \<Rightarrow> soustraire a b))"

section \<open>The map\<close>

text \<open>
  \<^verbatim>\<open>construire_carte\<close> hands its layers to folium. The map is modelled by what it is
  built from: the three layers (the zones with their colour), the legend, and the date
  of the title, present only when no file was uploaded. The layer of itineraries is not
  inspected: its type is a parameter.
\<close>

record 'i carte =
  couche_departements :: "dept list"
  couche_zones :: "(zone \<times> cell) list"
  couche_itineraire :: 'i
  legende :: "(string \<times> string) list"
  titre_date :: "date option"

definition niveaux_legende :: "string list" where
  "niveaux_legende = [''vigilance'', ''alerte'', alerte_renforcee_libelle, ''crise'']"

definition couleurs :: "string list" where
  "couleurs = [''#ffeda0'', ''#feb24c'', ''#fc4e2a'', ''#b10026'']"

definition codes_niveau :: "string list" where
  "codes_niveau = [''vigilance'', ''alerte'', ''alerte_renforcee'', ''crise'']"

definition couleur_zone :: "cell \<Rightarrow> cell" where
  "couleur_zone c =
     (case c of
        Str s \<Rightarrow> (case map_of (zip codes_niveau couleurs) s of None \<Rightarrow> NaN | Some k \<Rightarrow> Str k)
      | NaN \<Rightarrow> NaN
      | Num n \<Rightarrow> NaN)"

definition construire_carte ::
  "date \<Rightarrow> 'i \<Rightarrow> zone list \<Rightarrow> dept list \<Rightarrow> string option \<Rightarrow> 'i carte" where
  "construire_carte date_today itineraire zones_arrete dept_iti uploaded_file =
     \<lparr>couche_departements = dept_iti,
      couche_zones = map (\<lambda>z. (z, couleur_zone (niveauGravite z))) zones_arrete,
      couche_itineraire = itineraire,
      legende = zip niveaux_legende couleurs,
      titre_date = (if uploaded_file = None then Some date_today else None)\<rparr>"

section \<open>\<^verbatim>\<open>main\<close>\<close>

text \<open>
  A run of \<^verbatim>\<open>main\<close> is determined by its environment: the uploaded file, the flag
  \<^verbatim>\<open>construire_carte\<close> of the session state, the outcome of each read or download, the
  date and the two library parsers. The run yields the journal of what it did, in
  order, the exception that ended it if any, and the final flag. The page layout and the
  conversions of coordinates are left out.
\<close>

record 'i environnement =
  fichier_charge :: "string option"
  session_construire_carte :: "bool option"
  lecture_itineraire :: "pyexc + 'i"
  lecture_dept_iti :: "pyexc + dept list"
  lecture_zones :: "pyexc + zone_lue list"
  reponse_arretes :: "pyexc + (cell, cell) arrete list"
  env_today :: date
  env_literal_eval :: "cell \<Rightarrow> pyexc + parsed"
  env_json_loads :: "cell \<Rightarrow> pyexc + json"

datatype 'i evenement =
    Texte string
  | Lecture_itineraire
  | Lecture_dept_iti
  | Lecture_zones
  | Telechargement_arretes
  | Print pyexc
  | Table_construite table_indic
  | Carte_construite "'i carte"
  | Carte_affichee "'i carte"
  | Indicateurs_affiches table_indic

record 'i execution =
  journal :: "'i evenement list"
  exception :: "pyexc option"
  session_finale :: "bool option"

definition msg_chargement :: string where
  "msg_chargement = ''Chargement des donn'' @ [CHR 0xE9] @ ''es...''"

definition msg_chargement_termine :: string where
  "msg_chargement_termine = ''Chargement des donn'' @ [CHR 0xE9] @ ''es...Termin'' @ [CHR 0xE9] @ '' !''"

definition msg_echec :: string where
  "msg_echec =
     ''Echec du t'' @ [CHR 0xE9] @ ''l'' @ [CHR 0xE9] @ ''chargement des donn'' @ [CHR 0xE9]
       @ ''es des arr'' @ [CHR 0xEA] @ ''t'' @ [CHR 0xE9] @ ''s''"

definition msg_construction :: string where
  "msg_construction = ''Construction carte...''"

definition msg_construction_termine :: string where
  "msg_construction_termine = ''Construction carte...Termin'' @ [CHR 0xE9] @ '' !''"

definition msg_visualisation :: string where
  "msg_visualisation = ''Visualisation carte...''"

definition msg_visualisation_termine :: string where
  "msg_visualisation_termine = ''Visualisation carte...Termin'' @ [CHR 0xE9] @ '' !''"

definition msg_indicateurs :: string where
  "msg_indicateurs = ''Visualisation indicateurs...''"

text \<open>
  Lines 785 to 790: the one \<^verbatim>\<open>try\<close> of \<^verbatim>\<open>main\<close>. An exception of \<^verbatim>\<open>get_arretes\<close> is
  printed, the failure message is set and the dataframe is the empty one.
\<close>

definition charger_arretes ::
  "pyexc + (cell, cell) arrete list \<Rightarrow> 'i evenement list \<times> (cell, cell) arrete list" where
  "charger_arretes reponse =
     (case reponse of
        Inr df_arretes \<Rightarrow> ([Telechargement_arretes], df_arretes)
      | Inl e \<Rightarrow> ([Telechargement_arretes, Print e, Texte msg_echec], []))"

text \<open>Lines 798 to 822: the display, entered only when the flag of the session is set.\<close>

definition afficher ::
  "'i environnement \<Rightarrow> 'i \<Rightarrow> zone list \<Rightarrow> dept list \<Rightarrow> (cell, cell) arrete list
     \<Rightarrow> table_indic option \<Rightarrow> 'i evenement list \<Rightarrow> 'i execution" where
  "afficher env itineraire zones_arretes dept_iti df_arretes table_indic j =
     (if session_construire_carte env = Some True then
        (let carte = construire_carte (env_today env) itineraire zones_arretes dept_iti
                       (fichier_charge env);
             j = j @ [Texte msg_construction, Carte_construite carte,
                      Texte msg_construction_termine, Texte msg_visualisation,
                      Carte_affichee carte, Texte msg_visualisation_termine]
         in if df_arretes \<noteq> [] then
              (case table_indic of
                 None \<Rightarrow>
                   \<lparr>journal = j @ [Texte msg_indicateurs], exception = Some UnboundLocalError,
                    session_finale = session_construire_carte env\<rparr>
               | Some t \<Rightarrow>
                   \<lparr>journal = j @ [Texte msg_indicateurs, Indicateurs_affiches t, Texte []],
                    exception = None, session_finale = Some False\<rparr>)
            else
              \<lparr>journal = j @ [Texte msg_echec], exception = None, session_finale = Some False\<rparr>)
      else \<lparr>journal = j, exception = None, session_finale = session_construire_carte env\<rparr>)"

definition main :: "'i environnement \<Rightarrow> 'i execution" where
  "main env =
     (let etat = session_construire_carte env;
          j = [Texte msg_chargement, Lecture_itineraire]
      in case lecture_itineraire env of
           Inl e \<Rightarrow> \<lparr>journal = j, exception = Some e, session_finale = etat\<rparr>
         | Inr itineraire \<Rightarrow>
      (let j = j @ [Lecture_dept_iti]
       in case lecture_dept_iti env of
            Inl e \<Rightarrow> \<lparr>journal = j, exception = Some e, session_finale = etat\<rparr>
          | Inr dept_iti \<Rightarrow>
      (let j = j @ [Lecture_zones]
       in case get_zones_secheresse (env_json_loads env) (fichier_charge env)
                 (lecture_zones env) of
            Inl e \<Rightarrow> \<lparr>journal = j, exception = Some e, session_finale = etat\<rparr>
          | Inr zones_arretes \<Rightarrow>
      (let (ja, df_arretes) = charger_arretes (reponse_arretes env);
           j = j @ ja @ [Texte msg_chargement_termine]
       in if df_arretes \<noteq> [] then
            (case construire_table_indic (env_literal_eval env) (env_today env) df_arretes
                    zones_arretes dept_iti of
               Inl e \<Rightarrow> \<lparr>journal = j, exception = Some e, session_finale = etat\<rparr>
             | Inr table_indic \<Rightarrow>
                 afficher env itineraire zones_arretes dept_iti df_arretes (Some table_indic)
                   (j @ [Table_construite table_indic]))
          else afficher env itineraire zones_arretes dept_iti df_arretes None j))))"

text \<open>The steps of the pipeline in a journal, numbered in the order of the script.\<close>

fun etape :: "'i evenement \<Rightarrow> nat list" where
  "etape Lecture_itineraire = [1]"
| "etape Lecture_dept_iti = [2]"
| "etape Lecture_zones = [3]"
| "etape Telechargement_arretes = [4]"
| "etape (Table_construite t) = [5]"
| "etape (Carte_construite c) = [6]"
| "etape (Carte_affichee c) = [7]"
| "etape (Indicateurs_affiches t) = [8]"
| "etape (Texte s) = []"
| "etape (Print e) = []"

definition etapes :: "'i evenement list \<Rightarrow> nat list" where
  "etapes j = concat (map etape j)"

section \<open>Concrete data\<close>

text \<open>
  An archive of six arr\<^verbatim>\<open>e\<close>t\<^verbatim>\<open>e\<close>s, a layer of zones and a network of two departments, for
  the concrete evaluations. The second archive adds a row whose two lists differ in
  length.
\<close>

text \<open>
  A finite excerpt of \<^verbatim>\<open>ast.literal_eval\<close>, for the concrete evaluations below: a list
  display parses to its list, a quoted string to the string, a bare word is a
  \<^verbatim>\<open>Name\<close> node (\<^verbatim>\<open>ValueError: malformed node or string\<close>), a set display holding a list
  is unhashable (\<^verbatim>\<open>TypeError\<close>), two bare words do not parse (\<^verbatim>\<open>SyntaxError\<close>); any other
  value stands for a bare word or for a value that is not a string, a malformed node
  (\<^verbatim>\<open>ValueError\<close>).
\<close>

definition SUP_entre_quotes :: string where
  "SUP_entre_quotes = CHR 0x27 # ''SUP'' @ [CHR 0x27]"

definition literal_eval_extrait :: "cell \<Rightarrow> pyexc + parsed" where
  "literal_eval_extrait v =
     (if v = Str ''['alerte', 'crise']'' then Inr (PList [Str ''alerte'', Str ''crise''])
      else if v = Str ''['SUP', 'SOU']'' then Inr (PList [Str ''SUP'', Str ''SOU''])
      else if v = Str ''['SUP', 'SUP']'' then Inr (PList [Str ''SUP'', Str ''SUP''])
      else if v = Str ''['SUP']'' then Inr (PList [Str ''SUP''])
      else if v = Str ''['SOU']'' then Inr (PList [Str ''SOU''])
      else if v = Str ''['crise']'' then Inr (PList [Str ''crise''])
      else if v = Str ''['alerte']'' then Inr (PList [Str ''alerte''])
      else if v = Str ''['vigilance']'' then Inr (PList [Str ''vigilance''])
      else if v = Str ''[]'' then Inr (PList [])
      else if v = Str ''('crise', 'alerte')'' then Inr (PTuple [Str ''crise'', Str ''alerte''])
      else if v = Str SUP_entre_quotes then Inr (Scalar (Str ''SUP''))
      else if v = Str ''{[1]}'' then Inl TypeError
      else if v = Str ''alerte renforcee'' then Inl SyntaxError
      else Inl ValueError)"

definition df_exemple :: "(cell, cell) arrete list" where
  "df_exemple =
     [\<lparr>date_debut = ''2024-05-10'', date_fin = ''2024-09-30'',
       zones_alerte_niveau_gravite = Str ''['alerte', 'crise']'',
       zones_alerte_type = Str ''['SUP', 'SOU']'', departement = Str ''01''\<rparr>,
      \<lparr>date_debut = ''2024-06-01'', date_fin = ''2024-10-31'',
       zones_alerte_niveau_gravite = Str ''['crise']'',
       zones_alerte_type = Str ''['SUP']'', departement = Str ''75''\<rparr>,
      \<lparr>date_debut = ''2025-05-01'', date_fin = ''2025-09-30'',
       zones_alerte_niveau_gravite = Str ''['crise']'',
       zones_alerte_type = Str ''['SUP']'', departement = Str ''75''\<rparr>,
      \<lparr>date_debut = ''2025-04-01'', date_fin = ''2025-08-31'',
       zones_alerte_niveau_gravite = Str ''['vigilance']'',
       zones_alerte_type = Str ''['SUP']'', departement = Str ''33''\<rparr>,
      \<lparr>date_debut = ''2025-05-20'', date_fin = ''2025-12-31'',
       zones_alerte_niveau_gravite = Str ''[]'',
       zones_alerte_type = Str ''[]'', departement = Str ''34''\<rparr>,
      \<lparr>date_debut = ''2024-06-15'', date_fin = ''2024-08-15'',
       zones_alerte_niveau_gravite = Str ''crise'',
       zones_alerte_type = Str ''SUP'', departement = Str ''13''\<rparr>]"

definition ligne_mal_formee :: "(cell, cell) arrete" where
  "ligne_mal_formee =
     \<lparr>date_debut = ''2024-01-01'', date_fin = ''2025-12-31'',
      zones_alerte_niveau_gravite = Str ''['alerte', 'crise']'',
      zones_alerte_type = Str ''['SUP']'', departement = Str ''34''\<rparr>"

definition df_mal_forme :: "(cell, cell) arrete list" where
  "df_mal_forme = df_exemple @ [ligne_mal_formee]"

text \<open>
  Two more rows, both of type \<^verbatim>\<open>SOU\<close> alone and valid from June to October 2024: one
  well formed, one whose list of levels holds two elements for one type.
\<close>

definition ligne_sou :: "(cell, cell) arrete" where
  "ligne_sou =
     \<lparr>date_debut = ''2024-06-01'', date_fin = ''2024-10-31'',
      zones_alerte_niveau_gravite = Str ''['crise']'',
      zones_alerte_type = Str ''['SOU']'', departement = Str ''69''\<rparr>"

definition df_avec_sou :: "(cell, cell) arrete list" where
  "df_avec_sou = df_exemple @ [ligne_sou]"

definition ligne_sou_mal_formee :: "(cell, cell) arrete" where
  "ligne_sou_mal_formee =
     \<lparr>date_debut = ''2024-06-01'', date_fin = ''2024-10-31'',
      zones_alerte_niveau_gravite = Str ''['alerte', 'crise']'',
      zones_alerte_type = Str ''['SOU']'', departement = Str ''69''\<rparr>"

definition df_sou_mal_forme :: "(cell, cell) arrete list" where
  "df_sou_mal_forme = df_exemple @ [ligne_sou_mal_formee]"

definition aujourdhui :: date where
  "aujourdhui = \<lparr>year = 2025, month = 7, day = 15\<rparr>"

text \<open>
  Four JSON texts of the layer, and a finite excerpt of \<^verbatim>\<open>json.loads\<close> on them: two
  metropolitan departments, one overseas department and one arr\<^verbatim>\<open>e\<close>t\<^verbatim>\<open>e\<close>. A missing value is not
  a text (\<^verbatim>\<open>TypeError\<close>); any other value stands for a JSON text that is not an object.
\<close>

definition json_ain :: string where
  \<open>json_ain = ''{"code": "01", "nom": "Ain"}''\<close>

definition json_paris :: string where
  \<open>json_paris = ''{"code": "75", "nom": "Paris"}''\<close>

definition json_reunion :: string where
  \<open>json_reunion = ''{"code": "974", "nom": "La Reunion"}''\<close>

definition json_arrete :: string where
  \<open>json_arrete = ''{"fichier": "arrete.pdf"}''\<close>

definition json_loads_extrait :: "cell \<Rightarrow> pyexc + json" where
  "json_loads_extrait x =
     (if x = Str json_ain
      then Inr (JObjet [''code'' \<mapsto> Str ''01'', ''nom'' \<mapsto> Str ''Ain''])
      else if x = Str json_paris
      then Inr (JObjet [''code'' \<mapsto> Str ''75'', ''nom'' \<mapsto> Str ''Paris''])
      else if x = Str json_reunion
      then Inr (JObjet [''code'' \<mapsto> Str ''974'', ''nom'' \<mapsto> Str ''La Reunion''])
      else if x = Str json_arrete
      then Inr (JObjet [''fichier'' \<mapsto> Str ''arrete.pdf''])
      else if x = NaN then Inl TypeError
      else Inr JAutre)"

definition zones_lues_exemple :: "zone_lue list" where
  "zones_lues_exemple =
     [\<lparr>zone_id = Some 2, zone_type = Str ''SUP'',
       zone_departement = Str json_paris,
       arreteRestriction = Str json_arrete, niveauGravite = Str ''crise''\<rparr>,
      \<lparr>zone_id = Some 1, zone_type = Str ''SUP'',
       zone_departement = Str json_ain,
       arreteRestriction = Str json_arrete, niveauGravite = Str ''alerte''\<rparr>,
      \<lparr>zone_id = Some 3, zone_type = Str ''SOU'',
       zone_departement = Str json_ain,
       arreteRestriction = Str json_arrete, niveauGravite = Str ''crise''\<rparr>,
      \<lparr>zone_id = Some 4, zone_type = Str ''SUP'',
       zone_departement = Str json_reunion,
       arreteRestriction = Str json_arrete, niveauGravite = Str ''crise''\<rparr>,
      \<lparr>zone_id = Some 2, zone_type = Str ''SUP'',
       zone_departement = Str json_paris,
       arreteRestriction = Str json_arrete, niveauGravite = Str ''crise''\<rparr>]"

definition dept_iti_exemple :: "dept list" where
  "dept_iti_exemple = [\<lparr>insee_dep = Str ''01'', nom = ''Ain''\<rparr>, \<lparr>insee_dep = Str ''59'', nom = ''Nord''\<rparr>]"

definition env_exemple :: "unit environnement" where
  "env_exemple =
     \<lparr>fichier_charge = None, session_construire_carte = Some True,
      lecture_itineraire = Inr (), lecture_dept_iti = Inr dept_iti_exemple,
      lecture_zones = Inr zones_lues_exemple, reponse_arretes = Inr df_exemple,
      env_today = aujourdhui, env_literal_eval = literal_eval_extrait,
      env_json_loads = json_loads_extrait\<rparr>"

definition zones_exemple :: "zone list" where
  "zones_exemple =
     [\<lparr>zone_id = Some 1, zone_type = Str ''SUP'',
       zone_departement = Str json_ain,
       arreteRestriction = Str json_arrete, niveauGravite = Str ''alerte'',
       insee_dept = Str ''01'', chemin_fichier = Str ''arrete.pdf''\<rparr>,
      \<lparr>zone_id = Some 2, zone_type = Str ''SUP'',
       zone_departement = Str json_paris,
       arreteRestriction = Str json_arrete, niveauGravite = Str ''crise'',
       insee_dept = Str ''75'', chemin_fichier = Str ''arrete.pdf''\<rparr>]"

definition table_exemple :: table_indic where
  "table_exemple =
     \<lparr>colonnes = colonnes_indic,
      lignes =
        [(''annee_courante'',
          [Num 2, Num 0, Str [], Num 0, Str [], Num 1, Str ''Ain'', Num 0, Str []]),
         (''annee_precedente'',
          [Num 3, Num 0, Str [], Num 0, Str [], Num 0, Str [], Num 0, Str []]),
         (''mois_precedent'',
          [Num 1, Num 1, Str [], Num 0, Str [], Num 0, Str [], Num 1, Str []])]\<rparr>"

definition carte_exemple :: "unit carte" where
  "carte_exemple =
     \<lparr>couche_departements = dept_iti_exemple,
      couche_zones = [(zones_exemple ! 0, Str ''#feb24c''), (zones_exemple ! 1, Str ''#b10026'')],
      couche_itineraire = (),
      legende = zip niveaux_legende couleurs,
      titre_date = Some aujourdhui\<rparr>"

definition env_echec :: "unit environnement" where
  "env_echec = env_exemple\<lparr>reponse_arretes := Inl RequestException\<rparr>"

definition env_echec_sans_affichage :: "unit environnement" where
  "env_echec_sans_affichage = env_echec\<lparr>session_construire_carte := None\<rparr>"

definition env_zones_echec :: "unit environnement" where
  "env_zones_echec = env_exemple\<lparr>lecture_zones := Inl RequestException\<rparr>"

section \<open>The statements in the words of the specification\<close>

text \<open>
  The two comparison dates of the table: the first day of the same month one year
  before today, and the first day of the month before today's.
\<close>

definition date_an_passe :: "date \<Rightarrow> string" where
  "date_an_passe date_today =
     isoformat \<lparr>year = year date_today - 1, month = month date_today, day = 1\<rparr>"

definition date_mois_precedent :: "date \<Rightarrow> string" where
  "date_mois_precedent date_today =
     isoformat \<lparr>year = (if month date_today = 1 then year date_today - 1 else year date_today),
                month = (if month date_today = 1 then 12 else month date_today - 1),
                day = 1\<rparr>"

text \<open>
  The table can be computed when today is a date of the calendar after year 1 and the
  rows of the archive valid at the two comparison dates can be exploded.
\<close>

definition table_calculable ::
  "(cell \<Rightarrow> pyexc + parsed) \<Rightarrow> date \<Rightarrow> (cell, cell) arrete list \<Rightarrow> bool" where
  "table_calculable literal_eval date_today df_arretes =
     (date_valide date_today \<and> 1 < year date_today
      \<and> archive_explosable literal_eval df_arretes (date_an_passe date_today)
      \<and> archive_explosable literal_eval df_arretes (date_mois_precedent date_today))"

text \<open>What a run writes and draws when it displays the map (lines 800 to 812).\<close>

definition affichage_carte :: "'i carte \<Rightarrow> 'i evenement list" where
  "affichage_carte c =
     [Texte msg_construction, Carte_construite c, Texte msg_construction_termine,
      Texte msg_visualisation, Carte_affichee c, Texte msg_visualisation_termine]"

text \<open>The reads before the download of the archive all succeeded.\<close>

definition chargement_reussi ::
  "'i environnement \<Rightarrow> 'i \<Rightarrow> dept list \<Rightarrow> zone list \<Rightarrow> bool" where
  "chargement_reussi env itineraire dept_iti zones_arretes =
     (lecture_itineraire env = Inr itineraire \<and> lecture_dept_iti env = Inr dept_iti
      \<and> get_zones_secheresse (env_json_loads env) (fichier_charge env) (lecture_zones env)
          = Inr zones_arretes)"

section \<open>ISO dates compare as dates\<close>

text \<open>
  The date filter compares strings. On the ISO writings of two dates of the calendar the
  order of the strings is the order of the dates, so a row whose dates are written that
  way is kept exactly when it began before the comparison date and ends after it.
\<close>

lemma moins_de_dix:
  "i < (10::nat) \<Longrightarrow>
     i = 0 \<or> i = 1 \<or> i = 2 \<or> i = 3 \<or> i = 4 \<or> i = 5 \<or> i = 6 \<or> i = 7 \<or> i = 8 \<or> i = 9"
  by arith

lemma chiffre_less:
  assumes "i < 10" "j < 10"
  shows "(''0123456789'' ! i < ''0123456789'' ! j) = (i < j)"
  using moins_de_dix [OF assms(1)] moins_de_dix [OF assms(2)]
  by (elim disjE) simp_all

lemma chiffre_eq:
  assumes "i < 10" "j < 10"
  shows "(''0123456789'' ! i = ''0123456789'' ! j) = (i = j)"
  using moins_de_dix [OF assms(1)] moins_de_dix [OF assms(2)]
  by (elim disjE) simp_all

lemma length_chiffres [simp]: "length (chiffres k n) = k"
  by (induction k arbitrary: n) simp_all

lemma append_less_same_length:
  fixes a c :: "'a::linorder list"
  assumes "length a = length c"
  shows "(a @ b < c @ d) = (a < c \<or> a = c \<and> b < d)"
  using assms by (induction a c rule: list_induct2) auto


lemma lexico_dix:
  fixes a b r s :: nat
  assumes "r < 10" "s < 10"
  shows "(a < b \<or> a = b \<and> r < s) = (10 * a + r < 10 * b + s)"
  using assms by arith

lemma div_dix_borne: "n < 10 ^ Suc k \<Longrightarrow> n div 10 < (10::nat) ^ k"
  by (simp add: less_mult_imp_div_less mult.commute)

lemma chiffres_eq:
  "n < 10 ^ k \<Longrightarrow> m < 10 ^ k \<Longrightarrow> (chiffres k n = chiffres k m) = (n = m)"
proof (induction k arbitrary: n m)
  case 0
  then show ?case by simp
next
  case (Suc k)
  have b: "n div 10 < 10 ^ k" "m div 10 < 10 ^ k"
    using Suc.prems by (simp_all only: div_dix_borne)
  have d: "(n div 10 = m div 10 \<and> n mod 10 = m mod 10) = (n = m)"
    by (metis div_mult_mod_eq)
  have "(chiffres (Suc k) n = chiffres (Suc k) m)
      = (chiffres k (n div 10) = chiffres k (m div 10) \<and> n mod 10 = m mod 10)"
    by (simp add: chiffre_eq)
  also have "\<dots> = (n = m)"
    by (simp only: Suc.IH [OF b] d)
  finally show ?case .
qed

lemma chiffres_less:
  "n < 10 ^ k \<Longrightarrow> m < 10 ^ k \<Longrightarrow> (chiffres k n < chiffres k m) = (n < m)"
proof (induction k arbitrary: n m)
  case 0
  then show ?case by simp
next
  case (Suc k)
  have b: "n div 10 < 10 ^ k" "m div 10 < 10 ^ k"
    using Suc.prems by (simp_all only: div_dix_borne)
  have d: "(n div 10 < m div 10 \<or> n div 10 = m div 10 \<and> n mod 10 < m mod 10) = (n < m)"
    using lexico_dix [of "n mod 10" "m mod 10" "n div 10" "m div 10"] by simp
  have "(chiffres (Suc k) n < chiffres (Suc k) m)
      = (chiffres k (n div 10) < chiffres k (m div 10)
         \<or> chiffres k (n div 10) = chiffres k (m div 10) \<and> n mod 10 < m mod 10)"
    by (simp add: append_less_same_length chiffre_less)
  also have "\<dots> = (n < m)"
    by (simp only: Suc.IH [OF b] chiffres_eq [OF b] d)
  finally show ?case .
qed


lemma date_valide_bornes:
  assumes "date_valide d"
  shows "nat (year d) < 10 ^ 4" "nat (month d) < 10 ^ 2" "nat (day d) < 10 ^ 2"
    "0 \<le> year d" "0 \<le> month d" "0 \<le> day d"
  using assms by (auto simp: date_valide_def days_in_month_def split: if_splits)

lemma isoformat_less:
  assumes d: "date_valide d" and e: "date_valide e"
  shows "(isoformat d < isoformat e) = avant d e"
proof -
  note bd = date_valide_bornes [OF d] and be = date_valide_bornes [OF e]
  have y: "(chiffres 4 (nat (year d)) < chiffres 4 (nat (year e))) = (year d < year e)"
    "(chiffres 4 (nat (year d)) = chiffres 4 (nat (year e))) = (year d = year e)"
    using bd(1,4) be(1,4) by (auto simp: chiffres_less chiffres_eq)
  have m: "(chiffres 2 (nat (month d)) < chiffres 2 (nat (month e))) = (month d < month e)"
    "(chiffres 2 (nat (month d)) = chiffres 2 (nat (month e))) = (month d = month e)"
    using bd(2,5) be(2,5) by (auto simp: chiffres_less chiffres_eq)
  have j: "(chiffres 2 (nat (day d)) < chiffres 2 (nat (day e))) = (day d < day e)"
    using bd(3,6) be(3,6) by (auto simp: chiffres_less)
  show ?thesis
    unfolding isoformat_def avant_def
    by (simp add: append_less_same_length y m j)
qed


lemma valide_a_isoformat:
  assumes "date_valide debut" "date_valide fin" "date_valide c"
    and "date_debut r = isoformat debut" "date_fin r = isoformat fin"
  shows "valide_a (isoformat c) r = (avant debut c \<and> avant c fin)"
  using assms by (simp add: valide_a_def isoformat_less)

section \<open>The count of departments of the archive\<close>

lemma filtre_dates_eq: "filtre_dates df d = filter (valide_a d) df"
  by (auto simp: filtre_dates_def Let_def valide_a_def filter_empty_conv intro: filter_cong)

lemma apply_col_Inr:
  "(\<And>x. x \<in> set xs \<Longrightarrow> f x = Inr (g x)) \<Longrightarrow> apply_col f xs = Inr (map g xs)"
  by (induction xs) auto

lemma apply_col_Inr_iff:
  "(\<exists>ys. apply_col f xs = Inr ys) \<longleftrightarrow> (\<forall>x\<in>set xs. \<exists>y. f x = Inr y)"
  by (induction xs) (auto split: sum.splits)

lemma apply_col_result:
  "apply_col f xs = Inr ys \<Longrightarrow> list_all2 (\<lambda>x y. f x = Inr y) xs ys"
  by (induction xs arbitrary: ys) (auto split: sum.splits)

lemma set_fields [simp]:
  "date_debut (set_niveau_gravite r v) = date_debut r"
  "date_fin (set_niveau_gravite r v) = date_fin r"
  "departement (set_niveau_gravite r v) = departement r"
  "zones_alerte_type (set_niveau_gravite r v) = zones_alerte_type r"
  "zones_alerte_niveau_gravite (set_niveau_gravite r v) = v"
  "date_debut (set_type r w) = date_debut r"
  "date_fin (set_type r w) = date_fin r"
  "departement (set_type r w) = departement r"
  "zones_alerte_type (set_type r w) = w"
  "zones_alerte_niveau_gravite (set_type r w) = zones_alerte_niveau_gravite r"
  by (simp_all add: set_niveau_gravite_def set_type_def)

lemma set_set [simp]:
  "set_niveau_gravite (set_type (set_niveau_gravite r a) b) n = set_type (set_niveau_gravite r n) b"
  "set_type (set_type r b) t = set_type r t"
  by (simp_all add: set_niveau_gravite_def set_type_def)

lemma explode_row_parsed:
  "explode_row (set_type (set_niveau_gravite r pn) pt) =
     map (\<lambda>(n, t). set_type (set_niveau_gravite r n) t) (zip (explode_cell pn) (explode_cell pt))"
  by (simp add: explode_row_def)

lemma ligne_explosableD:
  "ligne_explosable le r \<Longrightarrow>
     \<exists>a b. safe_literal_eval le (zones_alerte_niveau_gravite r) = Inr a
        \<and> safe_literal_eval le (zones_alerte_type r) = Inr b \<and> mylen a = mylen b"
  by (simp add: ligne_explosable_def split: sum.splits)

lemma separer_listes_Inr:
  assumes ok: "list_all (ligne_explosable le) loc"
  shows "separer_listes le loc = Inr (concat (map (lignes_candidates le) loc))"
proof -
  define pn where "pn r = projr (safe_literal_eval le (zones_alerte_niveau_gravite r))" for r :: "(cell, cell) arrete"
  define pt where "pt r = projr (safe_literal_eval le (zones_alerte_type r))" for r :: "(cell, cell) arrete"
  have row: "safe_literal_eval le (zones_alerte_niveau_gravite r) = Inr (pn r)
      \<and> safe_literal_eval le (zones_alerte_type r) = Inr (pt r) \<and> mylen (pn r) = mylen (pt r)"
    if "r \<in> set loc" for r
  proof -
    from ok that have "ligne_explosable le r" by (simp add: list_all_iff)
    then obtain a b where "safe_literal_eval le (zones_alerte_niveau_gravite r) = Inr a"
      "safe_literal_eval le (zones_alerte_type r) = Inr b" "mylen a = mylen b"
      by (auto dest: ligne_explosableD)
    then show ?thesis by (simp add: pn_def pt_def)
  qed
  have s1: "apply_col (parse_niveau_gravite le) loc = Inr (map (\<lambda>r. set_niveau_gravite r (pn r)) loc)"
    by (rule apply_col_Inr) (simp add: parse_niveau_gravite_def row)
  have s2: "apply_col (parse_type le) (map (\<lambda>r. set_niveau_gravite r (pn r)) loc)
      = Inr (map (\<lambda>r'. set_type r' (pt' r')) (map (\<lambda>r. set_niveau_gravite r (pn r)) loc))"
    if "\<And>r. r \<in> set loc \<Longrightarrow> pt' (set_niveau_gravite r (pn r)) = pt r" for pt'
    by (rule apply_col_Inr) (auto simp: parse_type_def row that)
  define pt' where "pt' r' = projr (safe_literal_eval le (zones_alerte_type r'))" for r' :: "(parsed, cell) arrete"
  have pt': "pt' (set_niveau_gravite r (pn r)) = pt r" for r
    by (simp add: pt'_def pt_def)
  have s3: "apply_col (parse_type le) (map (\<lambda>r. set_niveau_gravite r (pn r)) loc)
      = Inr (map (\<lambda>r. set_type (set_niveau_gravite r (pn r)) (pt r)) loc)"
    using s2 [of pt'] by (simp add: pt' o_def)
  have s4: "explode (map (\<lambda>r. set_type (set_niveau_gravite r (pn r)) (pt r)) loc)
      = Inr (concat (map (lignes_candidates le) loc))"
  proof -
    have "list_all (\<lambda>r. mylen (zones_alerte_niveau_gravite r) = mylen (zones_alerte_type r))
        (map (\<lambda>r. set_type (set_niveau_gravite r (pn r)) (pt r)) loc)"
      by (simp add: list_all_iff row)
    moreover have "map explode_row (map (\<lambda>r. set_type (set_niveau_gravite r (pn r)) (pt r)) loc)
        = map (lignes_candidates le) loc"
      by (simp add: explode_row_parsed lignes_candidates_def paires_zones_def row)
    ultimately show ?thesis unfolding explode_def by presburger
  qed
  show ?thesis by (simp add: separer_listes_def s1 s3 s4)
qed

lemma apply_col_set:
  "apply_col f xs = Inr ys \<Longrightarrow> \<forall>y\<in>set ys. \<exists>x\<in>set xs. f x = Inr y"
  by (induction xs arbitrary: ys) (auto split: sum.splits)

lemma apply_col_all:
  "apply_col f xs = Inr ys \<Longrightarrow> \<forall>x\<in>set xs. \<exists>y\<in>set ys. f x = Inr y"
  by (induction xs arbitrary: ys) (auto split: sum.splits)

lemma separer_listes_Inr_only:
  assumes "separer_listes le loc = Inr ys"
  shows "list_all (ligne_explosable le) loc"
proof -
  from assms obtain df1 df2 where
    a1: "apply_col (parse_niveau_gravite le) loc = Inr df1" and
    a2: "apply_col (parse_type le) df1 = Inr df2" and
    a3: "explode df2 = Inr ys"
    by (auto simp: separer_listes_def split: sum.splits)
  from a3 have m: "\<forall>r\<in>set df2. mylen (zones_alerte_niveau_gravite r) = mylen (zones_alerte_type r)"
    by (auto simp: explode_def list_all_iff split: if_splits)
  show ?thesis unfolding list_all_iff
  proof
    fix r assume "r \<in> set loc"
    with apply_col_all [OF a1] obtain r1 where r1: "r1 \<in> set df1" "parse_niveau_gravite le r = Inr r1"
      by blast
    with apply_col_all [OF a2] obtain r2 where r2: "r2 \<in> set df2" "parse_type le r1 = Inr r2"
      by blast
    from r1(2) obtain a where a: "safe_literal_eval le (zones_alerte_niveau_gravite r) = Inr a"
      "r1 = set_niveau_gravite r a"
      by (auto simp: parse_niveau_gravite_def split: sum.splits)
    from r2(2) a(2) obtain b where b: "safe_literal_eval le (zones_alerte_type r) = Inr b"
      "r2 = set_type r1 b"
      by (auto simp: parse_type_def split: sum.splits)
    from m r2(1) a(2) b(2) have "mylen a = mylen b" by auto
    with a(1) b(1) show "ligne_explosable le r" by (simp add: ligne_explosable_def)
  qed
qed


lemma compter_departements_card:
  "compter_departements ex nv =
     card (departement ` {r \<in> set ex. zones_alerte_type r = Str ''SUP'' \<and> zones_alerte_niveau_gravite r \<in> set nv})"
proof -
  have "set (map departement (filter (\<lambda>r. zones_alerte_niveau_gravite r \<in> set nv)
           (filter (\<lambda>r. zones_alerte_type r = Str ''SUP'') ex)))
        = departement ` {r \<in> set ex. zones_alerte_type r = Str ''SUP'' \<and> zones_alerte_niveau_gravite r \<in> set nv}"
    by auto
  then have c: "length (remdups (map departement (filter (\<lambda>r. zones_alerte_niveau_gravite r \<in> set nv)
           (filter (\<lambda>r. zones_alerte_type r = Str ''SUP'') ex))))
        = card (departement ` {r \<in> set ex. zones_alerte_type r = Str ''SUP'' \<and> zones_alerte_niveau_gravite r \<in> set nv})"
    by (simp only: length_remdups_card_conv)
  show ?thesis
  proof (cases "filter (\<lambda>r. zones_alerte_niveau_gravite r \<in> set nv)
           (filter (\<lambda>r. zones_alerte_type r = Str ''SUP'') ex) = []")
    case True
    then have "{r \<in> set ex. zones_alerte_type r = Str ''SUP'' \<and> zones_alerte_niveau_gravite r \<in> set nv} = {}"
      by (auto simp: filter_empty_conv)
    with True show ?thesis
      by (auto simp: compter_departements_def Let_def)
  next
    case False
    then have "filter (\<lambda>r. zones_alerte_type r = Str ''SUP'') ex \<noteq> []" "ex \<noteq> []"
      by (auto simp: filter_empty_conv)
    with False c show ?thesis
      by (simp add: compter_departements_def Let_def)
  qed
qed

lemma candidates_image:
  "departement ` {r \<in> set (concat (map (lignes_candidates le) loc)).
        zones_alerte_type r = Str ''SUP'' \<and> zones_alerte_niveau_gravite r \<in> set nv}
   = departement ` {r \<in> set loc. list_ex (\<lambda>(n, t). t = Str ''SUP'' \<and> n \<in> set nv) (paires_zones le r)}"
  by (auto simp: lignes_candidates_def list_ex_iff image_iff) (force+)

lemma departements_qualifies_alt:
  "departements_qualifies le df d nv
   = departement ` {r \<in> set (filter (valide_a d) df).
        list_ex (\<lambda>(n, t). t = Str ''SUP'' \<and> n \<in> set nv) (paires_zones le r)}"
  by (auto simp: departements_qualifies_def ligne_qualifiee_def)

lemma calculer_dept_arretes_date_Inr:
  assumes "archive_explosable le df d"
  shows "calculer_dept_arretes_date le df d nv = Inr (card (departements_qualifies le df d nv))"
proof (cases "filter (valide_a d) df = []")
  case True
  then show ?thesis
    by (simp add: calculer_dept_arretes_date_def filtre_dates_eq compter_departements_def
        departements_qualifies_alt)
next
  case False
  from assms have "separer_listes le (filter (valide_a d) df)
      = Inr (concat (map (lignes_candidates le) (filter (valide_a d) df)))"
    unfolding archive_explosable_def by (rule separer_listes_Inr)
  with False show ?thesis
    by (simp only: calculer_dept_arretes_date_def filtre_dates_eq compter_departements_card
        candidates_image departements_qualifies_alt Let_def if_True not_False_eq_True sum.case)
qed

lemma calculer_dept_arretes_date_returns:
  assumes "calculer_dept_arretes_date le df d nv = Inr n"
  shows "archive_explosable le df d"
proof (cases "filter (valide_a d) df = []")
  case True
  then show ?thesis by (simp add: archive_explosable_def)
next
  case False
  with assms obtain ys where "separer_listes le (filter (valide_a d) df) = Inr ys"
    by (auto simp: calculer_dept_arretes_date_def filtre_dates_eq split: sum.splits)
  then show ?thesis unfolding archive_explosable_def by (rule separer_listes_Inr_only)
qed


lemmas evaluation_archive =
  calculer_dept_arretes_date_def filtre_dates_def separer_listes_def
  parse_niveau_gravite_def parse_type_def explode_def explode_row_def safe_literal_eval_def
  literal_eval_extrait_def set_niveau_gravite_def set_type_def compter_departements_def
  valide_a_def archive_explosable_def ligne_explosable_def ligne_qualifiee_def paires_zones_def
  departements_qualifies_def lignes_candidates_def df_exemple_def df_mal_forme_def
  ligne_mal_formee_def SUP_entre_quotes_def

text \<open>
  Claim C2, amended. For every archive dataframe whose rows valid at the comparison date
  parse without an uncaught exception and to matching element counts, every comparison
  date string and every list of levels, \<^verbatim>\<open>calculer_dept_arretes_date\<close> returns the number of
  distinct values of \<^verbatim>\<open>departement\<close> among the rows that are valid at the date
  (\<^verbatim>\<open>date_debut\<close> before it, \<^verbatim>\<open>date_fin\<close> after it) and have, after the explosion of the
  lists, a zone of type \<^verbatim>\<open>SUP\<close> at a level of the list; it returns 0 when no row
  qualifies.
\<close>

theorem calculer_dept_arretes_date_counts:
  assumes "archive_explosable literal_eval df_arretes date_compar"
  shows "calculer_dept_arretes_date literal_eval df_arretes date_compar niveaux
           = Inr (card (departements_qualifies literal_eval df_arretes date_compar niveaux))
         \<and> (\<not> list_ex (ligne_qualifiee literal_eval date_compar niveaux) df_arretes
            \<longrightarrow> calculer_dept_arretes_date literal_eval df_arretes date_compar niveaux = Inr 0)"
  using calculer_dept_arretes_date_Inr [OF assms, of niveaux]
  by (auto simp: departements_qualifies_def list_ex_iff filter_empty_conv)

text \<open>
  The archive of six rows at 1 July 2024: three departments; at 1 January 2023: none.
\<close>

theorem calculer_dept_arretes_date_counts_witness:
  "archive_explosable literal_eval_extrait df_exemple ''2024-07-01''
   \<and> calculer_dept_arretes_date literal_eval_extrait df_exemple ''2024-07-01''
        [Str ''alerte'', Str ''crise''] = Inr 3
   \<and> archive_explosable literal_eval_extrait df_exemple ''2023-01-01''
   \<and> \<not> list_ex (ligne_qualifiee literal_eval_extrait ''2023-01-01'' [Str ''alerte'', Str ''crise''])
          df_exemple
   \<and> calculer_dept_arretes_date literal_eval_extrait df_exemple ''2023-01-01''
        [Str ''alerte'', Str ''crise''] = Inr 0"
proof -
  have a: "archive_explosable literal_eval_extrait df_exemple ''2024-07-01''"
    by (simp add: evaluation_archive)
  have b: "archive_explosable literal_eval_extrait df_exemple ''2023-01-01''"
    by (simp add: evaluation_archive)
  have c: "\<not> list_ex (ligne_qualifiee literal_eval_extrait ''2023-01-01'' [Str ''alerte'', Str ''crise''])
          df_exemple"
    by (simp add: evaluation_archive)
  have d: "card (departements_qualifies literal_eval_extrait df_exemple ''2024-07-01''
        [Str ''alerte'', Str ''crise'']) = 3"
    by (simp add: evaluation_archive)
  from calculer_dept_arretes_date_counts [OF a, of "[Str ''alerte'', Str ''crise'']"] d
  have e: "calculer_dept_arretes_date literal_eval_extrait df_exemple ''2024-07-01''
        [Str ''alerte'', Str ''crise''] = Inr 3"
    by simp
  from calculer_dept_arretes_date_counts [OF b, of "[Str ''alerte'', Str ''crise'']"] c
  have f: "calculer_dept_arretes_date literal_eval_extrait df_exemple ''2023-01-01''
        [Str ''alerte'', Str ''crise''] = Inr 0"
    by blast
  from a b c e f show ?thesis by blast
qed

text \<open>
  Without the condition on the rows the statement fails: on a row valid at the date whose
  two lists differ in length, \<^verbatim>\<open>explode\<close> raises and no count is returned, although a zone
  of the row is of type \<^verbatim>\<open>SUP\<close> at the level asked for.
\<close>

theorem calculer_dept_arretes_date_counterexample:
  "calculer_dept_arretes_date literal_eval_extrait df_mal_forme ''2024-07-01'' [Str ''alerte'']
     = Inl ValueError
   \<and> calculer_dept_arretes_date literal_eval_extrait df_mal_forme ''2024-07-01'' [Str ''alerte'']
     \<noteq> Inr (card (departements_qualifies literal_eval_extrait df_mal_forme ''2024-07-01''
               [Str ''alerte'']))"
  by (simp add: evaluation_archive)


lemma lignes_candidates_fields:
  "c \<in> set (lignes_candidates le r) \<Longrightarrow>
     departement c = departement r \<and> date_debut c = date_debut r \<and> date_fin c = date_fin r"
  by (auto simp: lignes_candidates_def)

lemma lignes_candidates_paires:
  "map (\<lambda>c. (zones_alerte_niveau_gravite c, zones_alerte_type c)) (lignes_candidates le r)
     = paires_zones le r"
  by (simp add: lignes_candidates_def o_def case_prod_unfold)

lemma length_explode_cell: "length (explode_cell p) = mylen p"
  by (cases p) auto

lemma candidates_ligne:
  assumes "ligne_explosable le r"
  shows "\<exists>pn pt.
           safe_literal_eval le (zones_alerte_niveau_gravite r) = Inr pn
         \<and> safe_literal_eval le (zones_alerte_type r) = Inr pt
         \<and> map (\<lambda>c. (zones_alerte_niveau_gravite c, zones_alerte_type c))
               (lignes_candidates le r)
             = zip (explode_cell pn) (explode_cell pt)
         \<and> length (lignes_candidates le r) = mylen pn
         \<and> mylen pt = mylen pn
         \<and> (\<forall>xs. pn = PList xs \<and> xs \<noteq> [] \<longrightarrow>
               length (lignes_candidates le r) = length xs)
         \<and> (\<forall>xs ys. pn = PList xs \<and> pt = PList ys \<and> xs \<noteq> [] \<and> ys \<noteq> [] \<longrightarrow>
               length xs = length ys
               \<and> map (\<lambda>c. (zones_alerte_niveau_gravite c, zones_alerte_type c))
                     (lignes_candidates le r)
                   = zip xs ys)
         \<and> (\<forall>c \<in> set (lignes_candidates le r).
               departement c = departement r \<and> date_debut c = date_debut r
               \<and> date_fin c = date_fin r)"
proof -
  from assms obtain pn pt where p:
    "safe_literal_eval le (zones_alerte_niveau_gravite r) = Inr pn"
    "safe_literal_eval le (zones_alerte_type r) = Inr pt" "mylen pn = mylen pt"
    by (auto dest: ligne_explosableD)
  then have z: "paires_zones le r = zip (explode_cell pn) (explode_cell pt)"
    by (simp add: paires_zones_def)
  have m: "map (\<lambda>c. (zones_alerte_niveau_gravite c, zones_alerte_type c))
               (lignes_candidates le r)
             = zip (explode_cell pn) (explode_cell pt)"
    by (simp only: lignes_candidates_paires z)
  have l: "length (lignes_candidates le r) = mylen pn"
    using p(3) by (simp add: lignes_candidates_def z length_explode_cell)
  have n: "\<forall>xs. pn = PList xs \<and> xs \<noteq> [] \<longrightarrow> length (lignes_candidates le r) = length xs"
    using l by auto
  have q: "\<forall>xs ys. pn = PList xs \<and> pt = PList ys \<and> xs \<noteq> [] \<and> ys \<noteq> [] \<longrightarrow>
               length xs = length ys
               \<and> map (\<lambda>c. (zones_alerte_niveau_gravite c, zones_alerte_type c))
                     (lignes_candidates le r)
                   = zip xs ys"
    using p(3) m by auto
  have f: "\<forall>c \<in> set (lignes_candidates le r).
               departement c = departement r \<and> date_debut c = date_debut r
               \<and> date_fin c = date_fin r"
    by (blast dest: lignes_candidates_fields)
  from p(3) have e: "mylen pt = mylen pn" by simp
  show ?thesis
    by (intro exI [of _ pn] exI [of _ pt] conjI) (fact p(1) p(2) m l e n q f)+
qed

text \<open>
  Claim C7, amended. For every non-empty date-filtered archive dataframe whose rows parse
  without an uncaught exception and to matching element counts, both list columns are
  parsed by \<^verbatim>\<open>safe_literal_eval\<close> and the dataframe is exploded into one row per paired
  (level, type) element, the other columns repeated, before the type and level filters
  count on it: the i-th candidate row of an arr\<^verbatim>\<open>e\<close>t\<^verbatim>\<open>e\<close> holds the i-th level and the i-th type
  of its two lists. A row whose list has \<open>n > 0\<close> elements contributes exactly \<open>n\<close>
  candidate rows (the element count \<^verbatim>\<open>mylen\<close>, which is 1 for an empty list and for a
  scalar).
\<close>

theorem separer_listes_paires:
  assumes "filtre_dates df_arretes date_compar \<noteq> []"
    and "archive_explosable literal_eval df_arretes date_compar"
  shows "separer_listes literal_eval (filtre_dates df_arretes date_compar)
           = Inr (concat (map (lignes_candidates literal_eval)
                  (filtre_dates df_arretes date_compar)))
     \<and> calculer_dept_arretes_date literal_eval df_arretes date_compar niveaux
           = Inr (compter_departements
                   (concat (map (lignes_candidates literal_eval)
                      (filtre_dates df_arretes date_compar))) niveaux)
     \<and> (\<forall>r \<in> set (filtre_dates df_arretes date_compar). \<exists>pn pt.
           safe_literal_eval literal_eval (zones_alerte_niveau_gravite r) = Inr pn
         \<and> safe_literal_eval literal_eval (zones_alerte_type r) = Inr pt
         \<and> map (\<lambda>c. (zones_alerte_niveau_gravite c, zones_alerte_type c))
               (lignes_candidates literal_eval r)
             = zip (explode_cell pn) (explode_cell pt)
         \<and> length (lignes_candidates literal_eval r) = mylen pn
         \<and> mylen pt = mylen pn
         \<and> (\<forall>xs. pn = PList xs \<and> xs \<noteq> [] \<longrightarrow>
               length (lignes_candidates literal_eval r) = length xs)
         \<and> (\<forall>xs ys. pn = PList xs \<and> pt = PList ys \<and> xs \<noteq> [] \<and> ys \<noteq> [] \<longrightarrow>
               length xs = length ys
               \<and> map (\<lambda>c. (zones_alerte_niveau_gravite c, zones_alerte_type c))
                     (lignes_candidates literal_eval r)
                   = zip xs ys)
         \<and> (\<forall>c \<in> set (lignes_candidates literal_eval r).
               departement c = departement r \<and> date_debut c = date_debut r
               \<and> date_fin c = date_fin r))"
proof (intro conjI ballI)
  from assms(2)
  have ok: "list_all (ligne_explosable literal_eval) (filtre_dates df_arretes date_compar)"
    by (simp add: archive_explosable_def filtre_dates_eq)
  then show s: "separer_listes literal_eval (filtre_dates df_arretes date_compar)
           = Inr (concat (map (lignes_candidates literal_eval)
                  (filtre_dates df_arretes date_compar)))"
    by (rule separer_listes_Inr)
  from assms(1) s show "calculer_dept_arretes_date literal_eval df_arretes date_compar niveaux
           = Inr (compter_departements
                   (concat (map (lignes_candidates literal_eval)
                      (filtre_dates df_arretes date_compar))) niveaux)"
    by (simp add: calculer_dept_arretes_date_def)
  fix r assume "r \<in> set (filtre_dates df_arretes date_compar)"
  with ok have "ligne_explosable literal_eval r" by (simp add: list_all_iff)
  then show "\<exists>pn pt.
           safe_literal_eval literal_eval (zones_alerte_niveau_gravite r) = Inr pn
         \<and> safe_literal_eval literal_eval (zones_alerte_type r) = Inr pt
         \<and> map (\<lambda>c. (zones_alerte_niveau_gravite c, zones_alerte_type c))
               (lignes_candidates literal_eval r)
             = zip (explode_cell pn) (explode_cell pt)
         \<and> length (lignes_candidates literal_eval r) = mylen pn
         \<and> mylen pt = mylen pn
         \<and> (\<forall>xs. pn = PList xs \<and> xs \<noteq> [] \<longrightarrow>
               length (lignes_candidates literal_eval r) = length xs)
         \<and> (\<forall>xs ys. pn = PList xs \<and> pt = PList ys \<and> xs \<noteq> [] \<and> ys \<noteq> [] \<longrightarrow>
               length xs = length ys
               \<and> map (\<lambda>c. (zones_alerte_niveau_gravite c, zones_alerte_type c))
                     (lignes_candidates literal_eval r)
                   = zip xs ys)
         \<and> (\<forall>c \<in> set (lignes_candidates literal_eval r).
               departement c = departement r \<and> date_debut c = date_debut r
               \<and> date_fin c = date_fin r)"
    by (rule candidates_ligne)
qed

text \<open>
  The three rows valid at 1 July 2024 explode into four: the first, whose lists hold two
  elements, gives two candidate rows, the first level with the first type and the
  second level with the second type; the last, whose cells are bare words, gives one.
\<close>

theorem separer_listes_paires_witness:
  "filtre_dates df_exemple ''2024-07-01'' \<noteq> []
   \<and> archive_explosable literal_eval_extrait df_exemple ''2024-07-01''
   \<and> map (\<lambda>r. length (lignes_candidates literal_eval_extrait r))
        (filtre_dates df_exemple ''2024-07-01'') = [2, 1, 1]
   \<and> separer_listes literal_eval_extrait (filtre_dates df_exemple ''2024-07-01'')
       = Inr [\<lparr>date_debut = ''2024-05-10'', date_fin = ''2024-09-30'',
               zones_alerte_niveau_gravite = Str ''alerte'',
               zones_alerte_type = Str ''SUP'', departement = Str ''01''\<rparr>,
              \<lparr>date_debut = ''2024-05-10'', date_fin = ''2024-09-30'',
               zones_alerte_niveau_gravite = Str ''crise'',
               zones_alerte_type = Str ''SOU'', departement = Str ''01''\<rparr>,
              \<lparr>date_debut = ''2024-06-01'', date_fin = ''2024-10-31'',
               zones_alerte_niveau_gravite = Str ''crise'',
               zones_alerte_type = Str ''SUP'', departement = Str ''75''\<rparr>,
              \<lparr>date_debut = ''2024-06-15'', date_fin = ''2024-08-15'',
               zones_alerte_niveau_gravite = Str ''crise'',
               zones_alerte_type = Str ''SUP'', departement = Str ''13''\<rparr>]
   \<and> calculer_dept_arretes_date literal_eval_extrait df_exemple ''2024-07-01'' [Str ''crise'']
       = Inr 2"
proof -
  have a: "filtre_dates df_exemple ''2024-07-01'' \<noteq> []"
    by (simp add: evaluation_archive)
  have b: "archive_explosable literal_eval_extrait df_exemple ''2024-07-01''"
    by (simp add: evaluation_archive)
  have c: "concat (map (lignes_candidates literal_eval_extrait) (filtre_dates df_exemple ''2024-07-01''))
       = [\<lparr>date_debut = ''2024-05-10'', date_fin = ''2024-09-30'',
               zones_alerte_niveau_gravite = Str ''alerte'',
               zones_alerte_type = Str ''SUP'', departement = Str ''01''\<rparr>,
              \<lparr>date_debut = ''2024-05-10'', date_fin = ''2024-09-30'',
               zones_alerte_niveau_gravite = Str ''crise'',
               zones_alerte_type = Str ''SOU'', departement = Str ''01''\<rparr>,
              \<lparr>date_debut = ''2024-06-01'', date_fin = ''2024-10-31'',
               zones_alerte_niveau_gravite = Str ''crise'',
               zones_alerte_type = Str ''SUP'', departement = Str ''75''\<rparr>,
              \<lparr>date_debut = ''2024-06-15'', date_fin = ''2024-08-15'',
               zones_alerte_niveau_gravite = Str ''crise'',
               zones_alerte_type = Str ''SUP'', departement = Str ''13''\<rparr>]"
    by (simp add: evaluation_archive)
  have l: "map (\<lambda>r. length (lignes_candidates literal_eval_extrait r))
        (filtre_dates df_exemple ''2024-07-01'') = [2, 1, 1]"
    by (simp add: evaluation_archive)
  note t = separer_listes_paires [OF a b, of "[Str ''crise'']"]
  from t have s: "separer_listes literal_eval_extrait (filtre_dates df_exemple ''2024-07-01'')
       = Inr (concat (map (lignes_candidates literal_eval_extrait)
              (filtre_dates df_exemple ''2024-07-01'')))"
    by (rule conjunct1)
  from t have "calculer_dept_arretes_date literal_eval_extrait df_exemple ''2024-07-01''
      [Str ''crise'']
       = Inr (compter_departements
               (concat (map (lignes_candidates literal_eval_extrait)
                  (filtre_dates df_exemple ''2024-07-01''))) [Str ''crise''])"
    by (rule conjunct1 [OF conjunct2])
  then have k: "calculer_dept_arretes_date literal_eval_extrait df_exemple ''2024-07-01''
      [Str ''crise''] = Inr 2"
    by (simp only: c) (simp add: compter_departements_def)
  from a b l s c k show ?thesis by simp
qed

text \<open>
  Without the condition on the rows the statement fails: with a row whose lists differ
  in length the date-filtered dataframe is not exploded, \<^verbatim>\<open>explode\<close> raises.
\<close>

theorem separer_listes_counterexample:
  "filtre_dates df_mal_forme ''2025-06-01'' \<noteq> []
   \<and> separer_listes literal_eval_extrait (filtre_dates df_mal_forme ''2025-06-01'')
       = Inl ValueError"
  by (simp add: evaluation_archive)

lemma compter_departements_sup:
  "compter_departements (filter (\<lambda>r. zones_alerte_type r = Str ''SUP'') ex) nv
     = compter_departements ex nv"
  by (simp add: compter_departements_card)


lemma calculer_lignes_sup:
  assumes ok: "archive_explosable le df d"
    and g: "\<forall>r \<in> set df. a_zone_sup le r \<longrightarrow> garde r"
  shows "calculer_dept_arretes_date le (filter garde df) d nv
           = calculer_dept_arretes_date le df d nv"
proof -
  from ok have ok': "archive_explosable le (filter garde df) d"
    by (auto simp: archive_explosable_def list_all_iff)
  have "departements_qualifies le (filter garde df) d nv = departements_qualifies le df d nv"
    using g
    by (auto simp: departements_qualifies_def ligne_qualifiee_def a_zone_sup_def list_ex_iff)
  with calculer_dept_arretes_date_Inr [OF ok, of nv]
    calculer_dept_arretes_date_Inr [OF ok', of nv]
  show ?thesis by simp
qed

section \<open>The layer of zones\<close>

lemma premier_non_nul_const:
  assumes "cs \<noteq> []" "\<forall>c\<in>set cs. c = v" "v \<noteq> NaN"
  shows "premier_non_nul cs = v"
proof -
  from assms obtain c cs' where "cs = c # cs'" by (cases cs) auto
  with assms show ?thesis by (simp add: premier_non_nul_def)
qed

lemma dissolve_type:
  assumes "z \<in> set (dissolve (filter (\<lambda>z. zone_type z = Str ''SUP'') zs))"
  shows "zone_type z = Str ''SUP''"
proof -
  define S where "S = filter (\<lambda>z. zone_type z = Str ''SUP'') zs"
  define ids where "ids = concat (map (\<lambda>z. case zone_id z of None \<Rightarrow> [] | Some i \<Rightarrow> [i]) S)"
  define row where "row i =
      \<lparr>zone_id = Some i,
       zone_type = premier_non_nul (map zone_type (filter (\<lambda>z. zone_id z = Some i) S)),
       zone_departement = premier_non_nul (map zone_departement (filter (\<lambda>z. zone_id z = Some i) S)),
       arreteRestriction = premier_non_nul (map arreteRestriction (filter (\<lambda>z. zone_id z = Some i) S)),
       niveauGravite = premier_non_nul (map niveauGravite (filter (\<lambda>z. zone_id z = Some i) S))\<rparr>"
    for i
  have "dissolve S = map row (sort (remdups ids))"
    by (simp add: dissolve_def Let_def ids_def row_def)
  with assms have "z \<in> row ` set ids" by (simp add: S_def)
  then obtain i where i: "i \<in> set ids" and z: "z = row i" by blast
  from i obtain z0 where z0: "z0 \<in> set S" "zone_id z0 = Some i"
    by (auto simp: ids_def split: option.splits)
  then have ne: "map zone_type (filter (\<lambda>z. zone_id z = Some i) S) \<noteq> []"
    by (auto simp: filter_empty_conv)
  have "\<forall>c\<in>set (map zone_type (filter (\<lambda>z. zone_id z = Some i) S)). c = Str ''SUP''"
    by (auto simp: S_def)
  with ne have "premier_non_nul (map zone_type (filter (\<lambda>z. zone_id z = Some i) S)) = Str ''SUP''"
    by (intro premier_non_nul_const) simp_all
  with z show ?thesis by (simp add: row_def)
qed

lemma zones_id_type:
  "z \<in> set (if up = None then dissolve (filter (\<lambda>z. zone_type z = Str ''SUP'') zs)
             else filter (\<lambda>z. zone_type z = Str ''SUP'') zs)
   \<Longrightarrow> zone_type z = Str ''SUP''"
  by (auto dest: dissolve_type split: if_splits)

lemma where_dropna_set:
  assumes "zc \<in> set (dropna_insee_dept (where_cond zd cond))"
  shows "(zc, True) \<in> set (zip zd cond)"
  using assms
  by (auto simp: dropna_insee_dept_def where_cond_def ligne_vide_def split: if_splits)

lemma len_inferieur_3_True: "len_inferieur_3 c = Inr True \<Longrightarrow> \<exists>s. c = Str s \<and> length s < 3"
  by (cases c) auto

lemma list_all2_zipD: "list_all2 P xs ys \<Longrightarrow> (x, y) \<in> set (zip xs ys) \<Longrightarrow> P x y"
  by (auto simp: list_all2_iff)

lemma get_zones_secheresse_row:
  assumes r: "get_zones_secheresse jl up (Inr zs) = Inr res" and z: "z \<in> set res"
  shows "\<exists>z0 \<in> set (if up = None then dissolve (filter (\<lambda>z. zone_type z = Str ''SUP'') zs)
             else filter (\<lambda>z. zone_type z = Str ''SUP'') zs).
          champ_json jl ''code'' (zone_departement z0) = Inr (insee_dept z)
        \<and> len_inferieur_3 (insee_dept z) = Inr True
        \<and> champ_json jl ''fichier'' (arreteRestriction z0) = Inr (chemin_fichier z)
        \<and> zone_id z = zone_id z0 \<and> zone_type z = zone_type z0
        \<and> zone_departement z = zone_departement z0
        \<and> arreteRestriction z = arreteRestriction z0 \<and> niveauGravite z = niveauGravite z0"
proof -
  let ?Z = "if up = None then dissolve (filter (\<lambda>z. zone_type z = Str ''SUP'') zs)
             else filter (\<lambda>z. zone_type z = Str ''SUP'') zs"
  from r obtain zd cond where
    a1: "apply_col (ajouter_insee_dept jl) ?Z = Inr zd" and
    a2: "apply_col (\<lambda>zc. len_inferieur_3 (snd zc)) zd = Inr cond" and
    a3: "apply_col (ajouter_chemin_fichier jl) (dropna_insee_dept (where_cond zd cond)) = Inr res"
    by (auto simp: get_zones_secheresse_def Let_def split: sum.splits if_splits)
  from apply_col_set [OF a3] z obtain zc where
    zc: "zc \<in> set (dropna_insee_dept (where_cond zd cond))" "ajouter_chemin_fichier jl zc = Inr z"
    by blast
  from zc(1) have m: "(zc, True) \<in> set (zip zd cond)" by (rule where_dropna_set)
  with apply_col_result [OF a2] have l: "len_inferieur_3 (snd zc) = Inr True"
    by (auto dest: list_all2_zipD)
  from m have "zc \<in> set zd" by (rule set_zip_leftD)
  with apply_col_set [OF a1] obtain z0 where
    z0: "z0 \<in> set ?Z" "ajouter_insee_dept jl z0 = Inr zc"
    by blast
  from z0(2) have c: "champ_json jl ''code'' (zone_departement z0) = Inr (snd zc)" "fst zc = z0"
    by (auto simp: ajouter_insee_dept_def split: sum.splits)
  from zc(2) c(2) obtain f where
    f: "champ_json jl ''fichier'' (arreteRestriction z0) = Inr f"
    "z = \<lparr>zone_id = zone_id z0, zone_type = zone_type z0,
          zone_departement = zone_departement z0, arreteRestriction = arreteRestriction z0,
          niveauGravite = niveauGravite z0, insee_dept = snd zc, chemin_fichier = f\<rparr>"
    by (auto simp: ajouter_chemin_fichier_def split: sum.splits)
  from z0(1) c(1) l f show ?thesis by (intro bexI [of _ z0]) simp_all
qed


lemmas evaluation_zones =
  get_zones_secheresse_def dissolve_def premier_non_nul_def ajouter_insee_dept_def
  ajouter_chemin_fichier_def champ_json_def where_cond_def dropna_insee_dept_def ligne_vide_def
  json_loads_extrait_def zones_lues_exemple_def json_ain_def json_paris_def json_reunion_def
  json_arrete_def

lemma zones_exemple_eval:
  "get_zones_secheresse json_loads_extrait None (Inr zones_lues_exemple) = Inr zones_exemple"
  by (simp add: evaluation_zones zones_exemple_def)

text \<open>
  Claim C9. Every row returned by \<^verbatim>\<open>get_zones_secheresse\<close> belongs to a metropolitan
  department: its \<^verbatim>\<open>insee_dept\<close> is the \<^verbatim>\<open>code\<close> field parsed from the JSON of its column
  \<^verbatim>\<open>departement\<close>, that code is a string of fewer than three characters (the rows with
  three or more are dropped), and its \<^verbatim>\<open>chemin_fichier\<close> is the \<^verbatim>\<open>fichier\<close> field of the
  JSON of its column \<^verbatim>\<open>arreteRestriction\<close>.
\<close>

theorem get_zones_secheresse_metropole:
  assumes "get_zones_secheresse json_loads uploaded_file lecture = Inr zones_arretes"
  shows "\<forall>z \<in> set zones_arretes.
           champ_json json_loads ''code'' (zone_departement z) = Inr (insee_dept z)
         \<and> (\<exists>s. insee_dept z = Str s \<and> length s < 3)
         \<and> champ_json json_loads ''fichier'' (arreteRestriction z) = Inr (chemin_fichier z)"
proof
  fix z assume z: "z \<in> set zones_arretes"
  from assms obtain zs where l: "lecture = Inr zs"
    by (cases lecture) (auto simp: get_zones_secheresse_def)
  from get_zones_secheresse_row [OF assms [unfolded l] z]
  show "champ_json json_loads ''code'' (zone_departement z) = Inr (insee_dept z)
         \<and> (\<exists>s. insee_dept z = Str s \<and> length s < 3)
         \<and> champ_json json_loads ''fichier'' (arreteRestriction z) = Inr (chemin_fichier z)"
    by (auto dest: len_inferieur_3_True)
qed


text \<open>
  The layer of five zones read from the URL: the zone of La R\<^verbatim>\<open>e\<close>union, code 974, is
  dropped, the zone of Paris is kept with its code and the path of its file.
\<close>

theorem get_zones_secheresse_metropole_witness:
  "get_zones_secheresse json_loads_extrait None (Inr zones_lues_exemple) = Inr zones_exemple
   \<and> champ_json json_loads_extrait ''code'' (Str json_paris) = Inr (Str ''75'')
   \<and> champ_json json_loads_extrait ''fichier'' (Str json_arrete)
       = Inr (Str ''arrete.pdf'')
   \<and> Str ''974'' \<notin> set (map insee_dept zones_exemple)"
proof -
  have m: "zones_exemple ! 1 \<in> set zones_exemple"
    by (simp add: zones_exemple_def)
  have n: "Str ''974'' \<notin> set (map insee_dept zones_exemple)"
    by (simp add: zones_exemple_def)
  from get_zones_secheresse_metropole [OF zones_exemple_eval] m
  have "champ_json json_loads_extrait ''code'' (zone_departement (zones_exemple ! 1))
          = Inr (insee_dept (zones_exemple ! 1))
      \<and> champ_json json_loads_extrait ''fichier'' (arreteRestriction (zones_exemple ! 1))
          = Inr (chemin_fichier (zones_exemple ! 1))"
    by blast
  with zones_exemple_eval n show ?thesis by (simp add: zones_exemple_def)
qed

lemma get_zones_secheresse_type:
  assumes "get_zones_secheresse jl up lecture = Inr res" "z \<in> set res"
  shows "zone_type z = Str ''SUP''"
proof -
  from assms obtain zs where l: "lecture = Inr zs"
    by (cases lecture) (auto simp: get_zones_secheresse_def)
  from get_zones_secheresse_row [OF assms(1) [unfolded l] assms(2)]
  show ?thesis by (auto dest: zones_id_type)
qed

lemma get_zones_secheresse_memes_sup:
  assumes "zs \<noteq> []" "zs' \<noteq> []"
    and "filter (\<lambda>z. zone_type z = Str ''SUP'') zs = filter (\<lambda>z. zone_type z = Str ''SUP'') zs'"
  shows "get_zones_secheresse jl up (Inr zs) = get_zones_secheresse jl up (Inr zs')"
  using assms by (simp add: get_zones_secheresse_def)


text \<open>
  Claim C6, amended. Category membership on the water type is applied to both sources.
  Every row of the layer returned by \<^verbatim>\<open>get_zones_secheresse\<close> has the type \<^verbatim>\<open>SUP\<close>, and
  two layers read with the same rows of type \<^verbatim>\<open>SUP\<close> give the same result, whatever
  their rows of another type. The count of \<^verbatim>\<open>calculer_dept_arretes_date\<close> is the number
  of departments of the exploded rows of type \<^verbatim>\<open>SUP\<close> at a level of the list, and
  dropping the exploded rows of another type leaves it unchanged. For an archive whose
  rows valid at the comparison date parse without an uncaught exception and to matching
  element counts, dropping any rows without a zone of type \<^verbatim>\<open>SUP\<close> (or adding them back)
  leaves the result unchanged.
\<close>

theorem type_sup_seulement:
  "(\<forall>zones_arretes. get_zones_secheresse json_loads uploaded_file lecture = Inr zones_arretes
       \<longrightarrow> (\<forall>z \<in> set zones_arretes. zone_type z = Str ''SUP''))
   \<and> (zones_lues \<noteq> [] \<and> zones_lues' \<noteq> []
       \<and> filter (\<lambda>z. zone_type z = Str ''SUP'') zones_lues
           = filter (\<lambda>z. zone_type z = Str ''SUP'') zones_lues'
       \<longrightarrow> get_zones_secheresse json_loads uploaded_file (Inr zones_lues)
           = get_zones_secheresse json_loads uploaded_file (Inr zones_lues'))
   \<and> compter_departements loc_explode niveaux
       = card (departement ` {r \<in> set loc_explode.
            zones_alerte_type r = Str ''SUP'' \<and> zones_alerte_niveau_gravite r \<in> set niveaux})
   \<and> compter_departements (filter (\<lambda>r. zones_alerte_type r = Str ''SUP'') loc_explode) niveaux
       = compter_departements loc_explode niveaux
   \<and> (archive_explosable literal_eval df_arretes date_compar
       \<and> (\<forall>r \<in> set df_arretes. a_zone_sup literal_eval r \<longrightarrow> garde r)
       \<longrightarrow> calculer_dept_arretes_date literal_eval (filter garde df_arretes) date_compar niveaux
           = calculer_dept_arretes_date literal_eval df_arretes date_compar niveaux)"
  using get_zones_secheresse_type [of json_loads uploaded_file lecture]
    get_zones_secheresse_memes_sup [of zones_lues zones_lues' json_loads uploaded_file]
    compter_departements_card [of loc_explode niveaux]
    compter_departements_sup [of loc_explode niveaux]
    calculer_lignes_sup [of literal_eval df_arretes date_compar garde niveaux]
  by blast

text \<open>
  The zone of type \<^verbatim>\<open>SOU\<close> of the layer read is not in the layer returned, and the layer
  read without it gives the same result. The archive with one more row, of type
  \<^verbatim>\<open>SOU\<close> in crisis and valid at 1 July 2024, counts the same two departments in crisis
  as the archive without that row.
\<close>

theorem type_sup_seulement_witness:
  "get_zones_secheresse json_loads_extrait None (Inr zones_lues_exemple) = Inr zones_exemple
   \<and> list_all (\<lambda>z. zone_type z = Str ''SUP'') zones_exemple
   \<and> length zones_lues_exemple = 5
   \<and> length (filter (\<lambda>z. zone_type z = Str ''SUP'') zones_lues_exemple) = 4
   \<and> get_zones_secheresse json_loads_extrait None
        (Inr (filter (\<lambda>z. zone_type z = Str ''SUP'') zones_lues_exemple)) = Inr zones_exemple
   \<and> archive_explosable literal_eval_extrait df_avec_sou ''2024-07-01''
   \<and> valide_a ''2024-07-01'' ligne_sou
   \<and> safe_literal_eval literal_eval_extrait (zones_alerte_type ligne_sou)
       = Inr (PList [Str ''SOU''])
   \<and> ligne_sou \<in> set df_avec_sou
   \<and> ligne_sou \<notin> set (filter (a_zone_sup literal_eval_extrait) df_avec_sou)
   \<and> calculer_dept_arretes_date literal_eval_extrait df_avec_sou ''2024-07-01'' [Str ''crise'']
       = Inr 2
   \<and> calculer_dept_arretes_date literal_eval_extrait
        (filter (a_zone_sup literal_eval_extrait) df_avec_sou) ''2024-07-01'' [Str ''crise'']
       = Inr 2"
proof -
  note t = type_sup_seulement [of json_loads_extrait None "Inr zones_lues_exemple"
      zones_lues_exemple "filter (\<lambda>z. zone_type z = Str ''SUP'') zones_lues_exemple"
      "[]" "[Str ''crise'']" literal_eval_extrait df_avec_sou "''2024-07-01''"
      "a_zone_sup literal_eval_extrait"]
  have n: "zones_lues_exemple \<noteq> []" "length zones_lues_exemple = 5"
    "length (filter (\<lambda>z. zone_type z = Str ''SUP'') zones_lues_exemple) = 4"
    "filter (\<lambda>z. zone_type z = Str ''SUP'') zones_lues_exemple \<noteq> []"
    by (simp_all add: zones_lues_exemple_def)
  from t zones_exemple_eval have a: "\<forall>z \<in> set zones_exemple. zone_type z = Str ''SUP''"
    by blast
  from t n(1,4) have "get_zones_secheresse json_loads_extrait None (Inr zones_lues_exemple)
      = get_zones_secheresse json_loads_extrait None
          (Inr (filter (\<lambda>z. zone_type z = Str ''SUP'') zones_lues_exemple))"
    by simp
  with zones_exemple_eval have z: "get_zones_secheresse json_loads_extrait None
        (Inr (filter (\<lambda>z. zone_type z = Str ''SUP'') zones_lues_exemple)) = Inr zones_exemple"
    by simp
  have e: "archive_explosable literal_eval_extrait df_avec_sou ''2024-07-01''"
    by (simp add: evaluation_archive df_avec_sou_def ligne_sou_def)
  have c: "calculer_dept_arretes_date literal_eval_extrait df_avec_sou ''2024-07-01''
      [Str ''crise''] = Inr 2"
    by (simp add: evaluation_archive df_avec_sou_def ligne_sou_def)
  from t e have "calculer_dept_arretes_date literal_eval_extrait
        (filter (a_zone_sup literal_eval_extrait) df_avec_sou) ''2024-07-01'' [Str ''crise'']
       = calculer_dept_arretes_date literal_eval_extrait df_avec_sou ''2024-07-01''
           [Str ''crise'']"
    by blast
  with c have b: "calculer_dept_arretes_date literal_eval_extrait
        (filter (a_zone_sup literal_eval_extrait) df_avec_sou) ''2024-07-01'' [Str ''crise'']
       = Inr 2"
    by simp
  have s: "valide_a ''2024-07-01'' ligne_sou"
    "safe_literal_eval literal_eval_extrait (zones_alerte_type ligne_sou)
       = Inr (PList [Str ''SOU''])"
    "ligne_sou \<in> set df_avec_sou"
    "\<not> a_zone_sup literal_eval_extrait ligne_sou"
    by (simp_all add: a_zone_sup_def evaluation_archive df_avec_sou_def ligne_sou_def)
  from a b c e n s z zones_exemple_eval show ?thesis by (simp add: list_all_iff)
qed

text \<open>
  Without the condition on the archive the statement on the counts fails: one more row
  valid at 1 July 2024, of type \<^verbatim>\<open>SOU\<close> alone, whose list of levels holds two elements,
  makes \<^verbatim>\<open>explode\<close> raise, while the archive without that row counts two departments in
  crisis.
\<close>

theorem type_sup_seulement_counterexample:
  "df_sou_mal_forme = df_exemple @ [ligne_sou_mal_formee]
   \<and> valide_a ''2024-07-01'' ligne_sou_mal_formee
   \<and> safe_literal_eval literal_eval_extrait (zones_alerte_type ligne_sou_mal_formee)
       = Inr (PList [Str ''SOU''])
   \<and> calculer_dept_arretes_date literal_eval_extrait df_sou_mal_forme ''2024-07-01''
        [Str ''crise''] = Inl ValueError
   \<and> calculer_dept_arretes_date literal_eval_extrait df_exemple ''2024-07-01'' [Str ''crise'']
       = Inr 2"
  by (simp add: evaluation_archive df_sou_mal_forme_def ligne_sou_mal_formee_def)

section \<open>The table of indicators\<close>

lemma chiffres_2: "chiffres 2 n = [''0123456789'' ! (n div 10 mod 10), ''0123456789'' ! (n mod 10)]"
proof -
  have "chiffres (Suc (Suc 0)) n = [''0123456789'' ! (n div 10 mod 10), ''0123456789'' ! (n mod 10)]"
    by simp
  then show ?thesis by (simp only: numeral_2_eq_2)
qed

lemma chiffres_4:
  "chiffres 4 n = [''0123456789'' ! (n div 10 div 10 div 10 mod 10), ''0123456789'' ! (n div 10 div 10 mod 10),
                   ''0123456789'' ! (n div 10 mod 10), ''0123456789'' ! (n mod 10)]"
proof -
  have e: "(4::nat) = Suc (Suc (Suc (Suc 0)))" by simp
  have "chiffres (Suc (Suc (Suc (Suc 0)))) n =
     [''0123456789'' ! (n div 10 div 10 div 10 mod 10), ''0123456789'' ! (n div 10 div 10 mod 10),
                   ''0123456789'' ! (n div 10 mod 10), ''0123456789'' ! (n mod 10)]"
    by simp
  then show ?thesis by (simp only: e)
qed

lemmas evaluation_table =
  construire_table_indic_def loc_set_def colonnes_indic_def indic_annee_courante_def
  indic_mois_precedent_def calculer_dept_arretes_an_passe_def premier_jour_mois_precedent_def
  dt_date_def date_valide_def days_in_month_def is_leap_def isoformat_def chiffres_2 chiffres_4
  calculer_dept_zone_restrict_def calculer_dept_zone_vnf_niveau_def nombre_def
  alerte_renforcee_libelle_def aujourdhui_def dept_iti_exemple_def

lemma table_exemple_eval:
  "construire_table_indic literal_eval_extrait aujourdhui df_exemple zones_exemple dept_iti_exemple
     = Inr table_exemple"
  by (simp add: evaluation_table evaluation_archive zones_exemple_def table_exemple_def)

lemma table_mal_forme_eval:
  "construire_table_indic literal_eval_extrait aujourdhui df_mal_forme zones_exemple dept_iti_exemple
     = Inl ValueError"
  by (simp add: evaluation_table evaluation_archive zones_exemple_def)

lemma dt_date_an_passe:
  assumes "date_valide t" "1 < year t"
  shows "dt_date (year t - 1) (month t) 1 = Inr \<lparr>year = year t - 1, month = month t, day = 1\<rparr>"
  using assms by (auto simp: dt_date_def date_valide_def days_in_month_def)

lemma premier_jour_mois_precedent_Inr:
  assumes "date_valide t" "1 < year t"
  shows "premier_jour_mois_precedent t =
     Inr \<lparr>year = (if month t = 1 then year t - 1 else year t),
          month = (if month t = 1 then 12 else month t - 1), day = 1\<rparr>"
  using assms
  by (auto simp: premier_jour_mois_precedent_def Let_def dt_date_def date_valide_def
      days_in_month_def)

lemma calculer_dept_arretes_an_passe_Inr:
  assumes "date_valide t" "1 < year t" "archive_explosable le df (date_an_passe t)"
  shows "calculer_dept_arretes_an_passe le df t =
     Inr (card (departements_qualifies le df (date_an_passe t)
            [Str ''alerte'', Str alerte_renforcee_libelle, Str ''crise'']))"
  using assms(3)
  by (simp add: calculer_dept_arretes_an_passe_def dt_date_an_passe [OF assms(1,2)]
      calculer_dept_arretes_date_Inr date_an_passe_def)

lemma indic_mois_precedent_Inr:
  assumes "archive_explosable le df d"
  shows "indic_mois_precedent le df d =
     Inr [nombre (card (departements_qualifies le df d
                   [Str ''alerte'', Str ''alerte_renforcee'', Str ''crise''])),
          nombre (card (departements_qualifies le df d [Str ''crise''])), Str [],
          nombre (card (departements_qualifies le df d [Str ''alerte_renforcee''])), Str [],
          nombre (card (departements_qualifies le df d [Str ''alerte''])), Str [],
          nombre (card (departements_qualifies le df d [Str ''vigilance''])), Str []]"
  by (simp add: indic_mois_precedent_def calculer_dept_arretes_date_Inr [OF assms])

lemma length_indic_annee_courante: "length (indic_annee_courante zs ds) = 9"
  by (simp add: indic_annee_courante_def Let_def)

lemma construire_table_indic_Inr:
  assumes "table_calculable le t df"
  shows "construire_table_indic le t df zs ds =
     Inr \<lparr>colonnes = colonnes_indic,
          lignes =
            [(''annee_courante'', indic_annee_courante zs ds),
             (''annee_precedente'',
              [nombre (card (departements_qualifies le df (date_an_passe t)
                        [Str ''alerte'', Str alerte_renforcee_libelle, Str ''crise''])),
               Num 0, Str [], Num 0, Str [], Num 0, Str [], Num 0, Str []]),
             (''mois_precedent'',
              [nombre (card (departements_qualifies le df (date_mois_precedent t)
                        [Str ''alerte'', Str ''alerte_renforcee'', Str ''crise''])),
               nombre (card (departements_qualifies le df (date_mois_precedent t) [Str ''crise''])),
               Str [],
               nombre (card (departements_qualifies le df (date_mois_precedent t)
                        [Str ''alerte_renforcee''])), Str [],
               nombre (card (departements_qualifies le df (date_mois_precedent t) [Str ''alerte''])),
               Str [],
               nombre (card (departements_qualifies le df (date_mois_precedent t)
                        [Str ''vigilance''])), Str []])]\<rparr>"
proof -
  from assms have v: "date_valide t" "1 < year t"
    and a1: "archive_explosable le df (date_an_passe t)"
    and a2: "archive_explosable le df (date_mois_precedent t)"
    by (simp_all add: table_calculable_def)
  have m: "indic_mois_precedent le df
      (isoformat \<lparr>year = (if month t = 1 then year t - 1 else year t),
          month = (if month t = 1 then 12 else month t - 1), day = 1\<rparr>) =
     Inr [nombre (card (departements_qualifies le df (date_mois_precedent t)
                   [Str ''alerte'', Str ''alerte_renforcee'', Str ''crise''])),
          nombre (card (departements_qualifies le df (date_mois_precedent t) [Str ''crise''])), Str [],
          nombre (card (departements_qualifies le df (date_mois_precedent t) [Str ''alerte_renforcee''])), Str [],
          nombre (card (departements_qualifies le df (date_mois_precedent t) [Str ''alerte''])), Str [],
          nombre (card (departements_qualifies le df (date_mois_precedent t) [Str ''vigilance''])), Str []]"
    using indic_mois_precedent_Inr [OF a2] by (simp only: date_mois_precedent_def)
  show ?thesis
    unfolding construire_table_indic_def Let_def
    by (simp add: loc_set_def length_indic_annee_courante colonnes_indic_def
        calculer_dept_arretes_an_passe_Inr [OF v a1] premier_jour_mois_precedent_Inr [OF v] m)
qed

lemmas evaluation_lire = lire_indic_def indice_def colonnes_indic_def table_exemple_def

lemma table_calculable_exemple: "table_calculable literal_eval_extrait aujourdhui df_exemple"
  by (simp add: table_calculable_def date_an_passe_def date_mois_precedent_def date_valide_def
      days_in_month_def isoformat_def chiffres_2 chiffres_4 aujourdhui_def evaluation_archive)

lemma lire_annee_precedente:
  "lire_indic \<lparr>colonnes = colonnes_indic,
       lignes = [(''annee_courante'', cs),
                 (''annee_precedente'', [p0, p1, p2, p3, p4, p5, p6, p7, p8]),
                 (''mois_precedent'', ms)]\<rparr> ''annee_precedente'' c =
     (if c = ''dept_fr'' then Inr p0
      else if c = ''dept_vnf_crise_code'' then Inr p1
      else if c = ''dept_vnf_crise_nom'' then Inr p2
      else if c = ''dept_vnf_ar_code'' then Inr p3
      else if c = ''dept_vnf_ar_nom'' then Inr p4
      else if c = ''dept_vnf_a_code'' then Inr p5
      else if c = ''dept_vnf_a_nom'' then Inr p6
      else if c = ''dept_vnf_vg_code'' then Inr p7
      else if c = ''dept_vnf_vg_nom'' then Inr p8
      else Inl KeyError)"
  by (simp add: lire_indic_def indice_def colonnes_indic_def)




text \<open>
  Claim C3, amended. For every pair of input layers and every archive dataframe with
  which the table can be computed (the rows valid at the two comparison dates parse
  without an uncaught exception and to matching element counts), \<^verbatim>\<open>construire_table_indic\<close>
  returns a dataframe with the nine documented columns and exactly the three rows
  \<^verbatim>\<open>annee_courante\<close> (the indicators of the current layer of zones), \<^verbatim>\<open>annee_precedente\<close>
  (the count of departments at the first day of the same month of the previous year,
  over the levels \<^verbatim>\<open>calculer_dept_arretes_an_passe\<close> lists, and constants) and
  \<^verbatim>\<open>mois_precedent\<close> (the five counts of departments at the first day of the previous
  month), each of nine cells.
\<close>

theorem construire_table_indic_horizons:
  assumes "table_calculable literal_eval date_today df_arretes"
  shows "\<exists>t. construire_table_indic literal_eval date_today df_arretes zones_arretes dept_iti
             = Inr t
     \<and> colonnes t =
         [''dept_fr'', ''dept_vnf_crise_code'', ''dept_vnf_crise_nom'', ''dept_vnf_ar_code'',
          ''dept_vnf_ar_nom'', ''dept_vnf_a_code'', ''dept_vnf_a_nom'', ''dept_vnf_vg_code'',
          ''dept_vnf_vg_nom'']
     \<and> map fst (lignes t) = [''annee_courante'', ''annee_precedente'', ''mois_precedent'']
     \<and> list_all (\<lambda>lv. length (snd lv) = 9) (lignes t)
     \<and> map_of (lignes t) ''annee_courante'' = Some (indic_annee_courante zones_arretes dept_iti)
     \<and> lire_indic t ''annee_precedente'' ''dept_fr''
         = Inr (nombre (card (departements_qualifies literal_eval df_arretes
                  (date_an_passe date_today)
                  [Str ''alerte'', Str alerte_renforcee_libelle, Str ''crise''])))
     \<and> map_of (lignes t) ''annee_precedente''
         = Some [nombre (card (departements_qualifies literal_eval df_arretes
                    (date_an_passe date_today)
                    [Str ''alerte'', Str alerte_renforcee_libelle, Str ''crise''])),
                 Num 0, Str [], Num 0, Str [], Num 0, Str [], Num 0, Str []]
     \<and> map_of (lignes t) ''mois_precedent''
         = Some [nombre (card (departements_qualifies literal_eval df_arretes
                    (date_mois_precedent date_today)
                    [Str ''alerte'', Str ''alerte_renforcee'', Str ''crise''])),
                 nombre (card (departements_qualifies literal_eval df_arretes
                    (date_mois_precedent date_today) [Str ''crise''])), Str [],
                 nombre (card (departements_qualifies literal_eval df_arretes
                    (date_mois_precedent date_today) [Str ''alerte_renforcee''])), Str [],
                 nombre (card (departements_qualifies literal_eval df_arretes
                    (date_mois_precedent date_today) [Str ''alerte''])), Str [],
                 nombre (card (departements_qualifies literal_eval df_arretes
                    (date_mois_precedent date_today) [Str ''vigilance''])), Str []]"
proof -
  have c: "colonnes_indic =
         [''dept_fr'', ''dept_vnf_crise_code'', ''dept_vnf_crise_nom'', ''dept_vnf_ar_code'',
          ''dept_vnf_ar_nom'', ''dept_vnf_a_code'', ''dept_vnf_a_nom'', ''dept_vnf_vg_code'',
          ''dept_vnf_vg_nom'']"
    by (simp add: colonnes_indic_def)
  show ?thesis
    by (simp add: construire_table_indic_Inr [OF assms] lire_annee_precedente
        length_indic_annee_courante) (rule c)
qed

text \<open>The table of 15 July 2025 has the three rows.\<close>

theorem construire_table_indic_horizons_witness:
  "table_calculable literal_eval_extrait aujourdhui df_exemple
   \<and> construire_table_indic literal_eval_extrait aujourdhui df_exemple zones_exemple
       dept_iti_exemple = Inr table_exemple
   \<and> map fst (lignes table_exemple) = [''annee_courante'', ''annee_precedente'', ''mois_precedent'']
   \<and> date_an_passe aujourdhui = ''2024-07-01''
   \<and> date_mois_precedent aujourdhui = ''2025-06-01''"
proof -
  from construire_table_indic_horizons [OF table_calculable_exemple,
      of zones_exemple dept_iti_exemple]
  have m: "map fst (lignes table_exemple)
      = [''annee_courante'', ''annee_precedente'', ''mois_precedent'']"
    by (clarsimp simp: table_exemple_eval)
  have d: "date_an_passe aujourdhui = ''2024-07-01''"
    "date_mois_precedent aujourdhui = ''2025-06-01''"
    by (simp_all add: date_an_passe_def date_mois_precedent_def isoformat_def chiffres_2
        chiffres_4 aujourdhui_def)
  from m d table_calculable_exemple table_exemple_eval show ?thesis by simp
qed

text \<open>
  Without the condition on the archive no table is returned: with the row whose lists
  differ in length, valid at 1 July 2024, the construction raises.
\<close>

theorem construire_table_indic_horizons_counterexample:
  "construire_table_indic literal_eval_extrait aujourdhui df_mal_forme zones_exemple
     dept_iti_exemple = Inl ValueError"
  by (rule table_mal_forme_eval)

text \<open>
  Claim C4, at a failing input. On 15 July 2025, with a network of two departments (01
  and 59), Paris (75) in crisis in the current layer and in the archive at 1 June 2025:
  the current count of departments in crisis is 0, as no department of the network is in
  crisis, while the count of the previous month is 1, the department 75, which is not
  of the network; the difference displayed is -1.
\<close>

theorem indicateurs_vnf_populations:
  "construire_table_indic literal_eval_extrait aujourdhui df_exemple zones_exemple
     dept_iti_exemple = Inr table_exemple
   \<and> lire_indic table_exemple ''annee_courante'' ''dept_vnf_crise_code'' = Inr (Num 0)
   \<and> lire_indic table_exemple ''mois_precedent'' ''dept_vnf_crise_code'' = Inr (Num 1)
   \<and> diff_indic_mois table_exemple ''dept_vnf_crise_code'' = Inr (- 1)
   \<and> signe_devant (- 1) = [CHR 0x5C] @ ''- ''
   \<and> date_mois_precedent aujourdhui = ''2025-06-01''
   \<and> departements_qualifies literal_eval_extrait df_exemple ''2025-06-01'' [Str ''crise'']
       = {Str ''75''}
   \<and> Str ''75'' \<notin> set (map insee_dep dept_iti_exemple)"
proof (intro conjI)
  show "construire_table_indic literal_eval_extrait aujourdhui df_exemple zones_exemple
     dept_iti_exemple = Inr table_exemple"
    by (rule table_exemple_eval)
  show "lire_indic table_exemple ''annee_courante'' ''dept_vnf_crise_code'' = Inr (Num 0)"
    by (simp add: evaluation_lire)
  show "lire_indic table_exemple ''mois_precedent'' ''dept_vnf_crise_code'' = Inr (Num 1)"
    by (simp add: evaluation_lire)
  show "diff_indic_mois table_exemple ''dept_vnf_crise_code'' = Inr (- 1)"
    by (simp add: diff_indic_mois_def evaluation_lire)
  show "signe_devant (- 1) = [CHR 0x5C] @ ''- ''"
    by (simp add: signe_devant_def)
  show "date_mois_precedent aujourdhui = ''2025-06-01''"
    by (simp add: date_mois_precedent_def isoformat_def chiffres_2 chiffres_4 aujourdhui_def)
  show "departements_qualifies literal_eval_extrait df_exemple ''2025-06-01'' [Str ''crise'']
       = {Str ''75''}"
    by (simp add: evaluation_archive)
  show "Str ''75'' \<notin> set (map insee_dep dept_iti_exemple)"
    by (simp add: dept_iti_exemple_def)
qed

section \<open>The runs of \<^verbatim>\<open>main\<close>\<close>

lemma etapes_append [simp]: "etapes (xs @ ys) = etapes xs @ etapes ys"
  by (simp add: etapes_def)

lemma etapes_Cons [simp]: "etapes (x # xs) = etape x @ etapes xs"
  by (simp add: etapes_def)

lemma etapes_Nil [simp]: "etapes [] = []"
  by (simp add: etapes_def)

lemma charger_arretes_cases:
  "charger_arretes r = (ja, df) \<Longrightarrow>
     (\<exists>e. r = Inl e \<and> ja = [Telechargement_arretes, Print e, Texte msg_echec] \<and> df = [])
   \<or> (r = Inr df \<and> ja = [Telechargement_arretes])"
  by (auto simp: charger_arretes_def split: sum.splits)

lemma carte_exemple_eval:
  "construire_carte aujourdhui () zones_exemple dept_iti_exemple None = carte_exemple"
  by (simp add: construire_carte_def carte_exemple_def couleur_zone_def codes_niveau_def
      couleurs_def zones_exemple_def)

lemmas evaluation_main =
  main_def afficher_def charger_arretes_def env_exemple_def env_echec_def
  env_echec_sans_affichage_def env_zones_echec_def zones_exemple_eval table_exemple_eval
  carte_exemple_eval get_zones_secheresse_def





text \<open>
  Claim C5, amended. In \<^verbatim>\<open>main\<close> the only exception handler is the \<^verbatim>\<open>try\<close> around
  \<^verbatim>\<open>get_arretes\<close>. When the reads before it succeeded and \<^verbatim>\<open>get_arretes\<close> raises, the
  exception is printed, the failure message is set, the archive is the empty dataframe,
  no table of indicators is built and the run ends without exception; when the display
  was asked for (the flag \<^verbatim>\<open>construire_carte\<close> of the session is true) the map is built
  and displayed exactly as in a run whose download succeeded and the branch of the
  indicators sets the failure message; when it was not, nothing more is displayed. An
  exception of the read of a reference layer, of the load of the zones or of the
  construction of the table is not caught.
\<close>

theorem main_echec_arretes:
  "(\<forall>itineraire dept_iti zones_arretes e.
      chargement_reussi env itineraire dept_iti zones_arretes \<and> reponse_arretes env = Inl e \<longrightarrow>
        exception (main env) = None
      \<and> journal (main env) =
          [Texte msg_chargement, Lecture_itineraire, Lecture_dept_iti, Lecture_zones,
           Telechargement_arretes, Print e, Texte msg_echec, Texte msg_chargement_termine]
          @ (if session_construire_carte env = Some True
             then affichage_carte (construire_carte (env_today env) itineraire zones_arretes
                    dept_iti (fichier_charge env)) @ [Texte msg_echec]
             else []))
   \<and> (\<forall>itineraire dept_iti zones_arretes df_arretes table_indic.
      chargement_reussi env itineraire dept_iti zones_arretes
      \<and> reponse_arretes env = Inr df_arretes \<and> df_arretes \<noteq> []
      \<and> construire_table_indic (env_literal_eval env) (env_today env) df_arretes zones_arretes
            dept_iti = Inr table_indic \<longrightarrow>
        exception (main env) = None
      \<and> journal (main env) =
          [Texte msg_chargement, Lecture_itineraire, Lecture_dept_iti, Lecture_zones,
           Telechargement_arretes, Texte msg_chargement_termine, Table_construite table_indic]
          @ (if session_construire_carte env = Some True
             then affichage_carte (construire_carte (env_today env) itineraire zones_arretes
                    dept_iti (fichier_charge env))
                  @ [Texte msg_indicateurs, Indicateurs_affiches table_indic, Texte []]
             else []))
   \<and> (\<forall>e. lecture_itineraire env = Inl e \<longrightarrow> exception (main env) = Some e)
   \<and> (\<forall>itineraire e. lecture_itineraire env = Inr itineraire \<and> lecture_dept_iti env = Inl e
        \<longrightarrow> exception (main env) = Some e)
   \<and> (\<forall>itineraire dept_iti e.
        lecture_itineraire env = Inr itineraire \<and> lecture_dept_iti env = Inr dept_iti
        \<and> lecture_zones env = Inl e \<longrightarrow> exception (main env) = Some e)
   \<and> (\<forall>itineraire dept_iti zones_arretes df_arretes e.
        chargement_reussi env itineraire dept_iti zones_arretes
        \<and> reponse_arretes env = Inr df_arretes \<and> df_arretes \<noteq> []
        \<and> construire_table_indic (env_literal_eval env) (env_today env) df_arretes zones_arretes
            dept_iti = Inl e \<longrightarrow> exception (main env) = Some e)"
  by (auto simp: main_def afficher_def charger_arretes_def Let_def chargement_reussi_def
      affichage_carte_def get_zones_secheresse_def)


text \<open>
  The run whose download fails with the display asked for, and the run whose load of
  the zones fails.
\<close>

theorem main_echec_arretes_witness:
  "chargement_reussi env_echec () dept_iti_exemple zones_exemple
   \<and> reponse_arretes env_echec = Inl RequestException
   \<and> exception (main env_echec) = None
   \<and> journal (main env_echec) =
       [Texte msg_chargement, Lecture_itineraire, Lecture_dept_iti, Lecture_zones,
        Telechargement_arretes, Print RequestException, Texte msg_echec,
        Texte msg_chargement_termine]
       @ affichage_carte carte_exemple @ [Texte msg_echec]
   \<and> lecture_zones env_zones_echec = Inl RequestException
   \<and> exception (main env_zones_echec) = Some RequestException"
proof -
  have c: "chargement_reussi env_echec () dept_iti_exemple zones_exemple"
    using zones_exemple_eval by (simp add: chargement_reussi_def env_echec_def env_exemple_def)
  have r: "reponse_arretes env_echec = Inl RequestException"
    "session_construire_carte env_echec = Some True" "env_today env_echec = aujourdhui"
    "fichier_charge env_echec = None"
    by (simp_all add: env_echec_def env_exemple_def)
  have z: "lecture_itineraire env_zones_echec = Inr ()"
    "lecture_dept_iti env_zones_echec = Inr dept_iti_exemple"
    "lecture_zones env_zones_echec = Inl RequestException"
    by (simp_all add: env_zones_echec_def env_exemple_def)
  from main_echec_arretes [of env_echec] c r
  have a: "exception (main env_echec) = None
      \<and> journal (main env_echec) =
       [Texte msg_chargement, Lecture_itineraire, Lecture_dept_iti, Lecture_zones,
        Telechargement_arretes, Print RequestException, Texte msg_echec,
        Texte msg_chargement_termine]
       @ affichage_carte carte_exemple @ [Texte msg_echec]"
    by (simp add: carte_exemple_eval)
  from main_echec_arretes [of env_zones_echec] z
  have b: "exception (main env_zones_echec) = Some RequestException"
    by blast
  from a b c r z show ?thesis by simp
qed

text \<open>
  Without the condition on the display the statement fails: in a run whose download
  fails and whose flag is not set, no map is built or displayed and the last message is
  that the load is finished; the branch of the indicators is not entered.
\<close>

theorem main_echec_arretes_counterexample:
  "reponse_arretes env_echec_sans_affichage = Inl RequestException
   \<and> exception (main env_echec_sans_affichage) = None
   \<and> journal (main env_echec_sans_affichage) =
       [Texte msg_chargement, Lecture_itineraire, Lecture_dept_iti, Lecture_zones,
        Telechargement_arretes, Print RequestException, Texte msg_echec,
        Texte msg_chargement_termine]
   \<and> etapes (journal (main env_echec_sans_affichage)) = [1, 2, 3, 4]"
  using zones_exemple_eval
  by (simp add: main_def afficher_def charger_arretes_def env_echec_sans_affichage_def
      env_echec_def env_exemple_def)

section \<open>\<^verbatim>\<open>safe_literal_eval\<close>\<close>


text \<open>
  Claim C10. \<^verbatim>\<open>safe_literal_eval\<close> on the failure path it guards: whenever
  \<^verbatim>\<open>ast.literal_eval\<close> raises \<^verbatim>\<open>ValueError\<close> or \<^verbatim>\<open>SyntaxError\<close>, the function raises
  nothing and returns the one-element list holding the unchanged input; whenever the
  parsing succeeds, it returns the parsed literal itself, which is a list exactly when
  the literal denotes one.
\<close>

theorem safe_literal_eval_guarded:
  "(literal_eval v = Inl ValueError \<or> literal_eval v = Inl SyntaxError
      \<longrightarrow> safe_literal_eval literal_eval v = Inr (PList [v]))
   \<and> (\<forall>p. literal_eval v = Inr p
      \<longrightarrow> safe_literal_eval literal_eval v = Inr p
          \<and> (\<forall>q. safe_literal_eval literal_eval v = Inr q \<longrightarrow> est_liste q = est_liste p))"
  by (auto simp: safe_literal_eval_def)

theorem safe_literal_eval_guarded_witness:
  "safe_literal_eval literal_eval_extrait (Str ''crise'') = Inr (PList [Str ''crise''])
   \<and> safe_literal_eval literal_eval_extrait (Str ''alerte renforcee'')
       = Inr (PList [Str ''alerte renforcee''])
   \<and> safe_literal_eval literal_eval_extrait (Str SUP_entre_quotes) = Inr (Scalar (Str ''SUP''))
   \<and> safe_literal_eval literal_eval_extrait (Str ''['alerte', 'crise']'')
       = Inr (PList [Str ''alerte'', Str ''crise''])"
  using safe_literal_eval_guarded [of literal_eval_extrait "Str ''crise''"]
    safe_literal_eval_guarded [of literal_eval_extrait "Str ''alerte renforcee''"]
    safe_literal_eval_guarded [of literal_eval_extrait "Str SUP_entre_quotes"]
    safe_literal_eval_guarded [of literal_eval_extrait "Str ''['alerte', 'crise']''"]
  by (simp add: literal_eval_extrait_def SUP_entre_quotes_def)

end
